theory Spec2Isabelle
  imports Complex_Main "HOL-Library.Product_Lexorder"
begin

section \<open>The agent lock (agent\_lock.py)\<close>

text \<open>
  The class \<^verbatim>\<open>AgentLock\<close> keeps two flags, two optional start times, the id of the
  task that holds the lock and two constants. Times are the floats returned by
  \<^verbatim>\<open>time.time()\<close>; they are modelled as real numbers of seconds. Every method
  reads the clock a few times in a row without awaiting in between; the model passes one
  reading \<open>now\<close> to each call. \<^verbatim>\<open>None\<close> is \<open>None\<close>.
\<close>

record agent_lock =
  lk_is_agent_working :: bool
  lk_is_cooldown :: bool
  lk_agent_start_time :: "real option"
  lk_cooldown_start_time :: "real option"
  lk_current_task_id :: "string option"
  lk_timeout_seconds :: real
  lk_cooldown_seconds :: real

text \<open>The state built by \<^verbatim>\<open>__init__\<close>.\<close>

definition AgentLock_init :: agent_lock where
  "AgentLock_init =
     \<lparr> lk_is_agent_working = False, lk_is_cooldown = False,
       lk_agent_start_time = None, lk_cooldown_start_time = None,
       lk_current_task_id = None,
       lk_timeout_seconds = 300, lk_cooldown_seconds = 3 \<rparr>"

text \<open>
  Exceptions are values: \<^verbatim>\<open>TypeError\<close>, and any other \<^verbatim>\<open>Exception\<close> with the
  text that \<^verbatim>\<open>str(e)\<close> gives.
\<close>

datatype py_error = TypeError | PyException string

text \<open>
  Python's truth value of an optional float: \<^verbatim>\<open>None\<close> and \<^verbatim>\<open>0.0\<close> are false.
  The guard \<^verbatim>\<open>start and (time.time() - start) > limit\<close> is \<open>elapsed_over\<close>.
\<close>

definition truthy_time :: "real option \<Rightarrow> bool" where
  "truthy_time t = (case t of None \<Rightarrow> False | Some x \<Rightarrow> x \<noteq> 0)"

definition elapsed_over :: "real option \<Rightarrow> real \<Rightarrow> real \<Rightarrow> bool" where
  "elapsed_over start now limit =
     (case start of None \<Rightarrow> False | Some x \<Rightarrow> x \<noteq> 0 \<and> now - x > limit)"

text \<open>
  \<^verbatim>\<open>acquire_agent_lock\<close>. The cooldown is looked at first, then the working flag.
  In the branch "still in cooldown" the source computes the remaining time for its
  message, \<^verbatim>\<open>cooldown_seconds - (time.time() - cooldown_start_time)\<close>, which raises
  TypeError when the start time is \<^verbatim>\<open>None\<close>; the state is then as it was.
\<close>

definition acquire_agent_lock :: "agent_lock \<Rightarrow> string \<Rightarrow> real \<Rightarrow> agent_lock \<times> (py_error + bool)" where
  "acquire_agent_lock s task_id now =
     (if lk_is_cooldown s \<and> \<not> elapsed_over (lk_cooldown_start_time s) now (lk_cooldown_seconds s)
      then (if lk_cooldown_start_time s = None then (s, Inl TypeError) else (s, Inr False))
      else
        let s1 = (if lk_is_cooldown s
                  then s\<lparr> lk_is_cooldown := False, lk_cooldown_start_time := None,
                          lk_current_task_id := None \<rparr>
                  else s)
        in if lk_is_agent_working s1 \<and> \<not> elapsed_over (lk_agent_start_time s1) now (lk_timeout_seconds s1)
           then (s1, Inr False)
           else
             let s2 = (if lk_is_agent_working s1
                       then s1\<lparr> lk_is_agent_working := False, lk_is_cooldown := False,
                                lk_current_task_id := None \<rparr>
                       else s1)
             in (s2\<lparr> lk_is_agent_working := True, lk_is_cooldown := False,
                      lk_agent_start_time := Some now, lk_cooldown_start_time := None,
                      lk_current_task_id := Some task_id \<rparr>, Inr True))"

text \<open>\<^verbatim>\<open>release_agent_lock\<close>: the holder, or anybody when nobody works, starts the cooldown.\<close>

definition release_agent_lock :: "agent_lock \<Rightarrow> string \<Rightarrow> real \<Rightarrow> agent_lock" where
  "release_agent_lock s task_id now =
     (if lk_current_task_id s = Some task_id \<or> \<not> lk_is_agent_working s
      then s\<lparr> lk_is_agent_working := False, lk_is_cooldown := True,
              lk_cooldown_start_time := Some now \<rparr>
      else s)"

text \<open>\<^verbatim>\<open>is_agent_working\<close>: the query that expires a stale state before it answers.\<close>

definition is_agent_working :: "agent_lock \<Rightarrow> real \<Rightarrow> agent_lock \<times> bool" where
  "is_agent_working s now =
     (if lk_is_agent_working s \<and> elapsed_over (lk_agent_start_time s) now (lk_timeout_seconds s)
      then (s\<lparr> lk_is_agent_working := False, lk_is_cooldown := False,
               lk_current_task_id := None \<rparr>, False)
      else if lk_is_cooldown s \<and> elapsed_over (lk_cooldown_start_time s) now (lk_cooldown_seconds s)
      then (s\<lparr> lk_is_cooldown := False, lk_cooldown_start_time := None,
               lk_current_task_id := None \<rparr>, False)
      else (s, lk_is_agent_working s \<or> lk_is_cooldown s))"

text \<open>
  \<^verbatim>\<open>get_status\<close> builds a dictionary from the fields. The two ISO renderings of the
  start times are left out; the elapsed and remaining seconds are present exactly when
  the start time is truthy. The method assigns to no field, so the model returns the
  dictionary together with the state it was called on.
\<close>

record lock_status =
  st_is_locked :: bool
  st_is_agent_working :: bool
  st_is_cooldown :: bool
  st_current_task_id :: "string option"
  st_agent_elapsed_seconds :: "real option"
  st_cooldown_elapsed_seconds :: "real option"
  st_cooldown_remaining_seconds :: "real option"

definition get_status :: "agent_lock \<Rightarrow> real \<Rightarrow> agent_lock \<times> lock_status" where
  "get_status s now =
     (s, \<lparr> st_is_locked = (lk_is_agent_working s \<or> lk_is_cooldown s),
           st_is_agent_working = lk_is_agent_working s,
           st_is_cooldown = lk_is_cooldown s,
           st_current_task_id = lk_current_task_id s,
           st_agent_elapsed_seconds =
             (if truthy_time (lk_agent_start_time s)
              then map_option (\<lambda>t. now - t) (lk_agent_start_time s) else None),
           st_cooldown_elapsed_seconds =
             (if truthy_time (lk_cooldown_start_time s)
              then map_option (\<lambda>t. now - t) (lk_cooldown_start_time s) else None),
           st_cooldown_remaining_seconds =
             (if truthy_time (lk_cooldown_start_time s)
              then map_option (\<lambda>t. max 0 (lk_cooldown_seconds s - (now - t)))
                     (lk_cooldown_start_time s)
              else None) \<rparr>)"

text \<open>
  The operations a caller can perform on the lock, each with the clock reading at which
  it runs, and the state after a sequence of them. An exception in
  \<^verbatim>\<open>acquire_agent_lock\<close> leaves the state as the call found it.
\<close>

datatype guard_op =
    Acquire string real
  | Release string real
  | IsAgentWorking real
  | GetStatus real

fun guard_step :: "agent_lock \<Rightarrow> guard_op \<Rightarrow> agent_lock" where
  "guard_step s (Acquire task_id now) = fst (acquire_agent_lock s task_id now)"
| "guard_step s (Release task_id now) = release_agent_lock s task_id now"
| "guard_step s (IsAgentWorking now) = fst (is_agent_working s now)"
| "guard_step s (GetStatus now) = fst (get_status s now)"

definition guard_run :: "guard_op list \<Rightarrow> agent_lock" where
  "guard_run ops = foldl guard_step AgentLock_init ops"

text \<open>The three states of the specification, read off the two flags.\<close>

definition is_idle :: "agent_lock \<Rightarrow> bool" where
  "is_idle s = (\<not> lk_is_agent_working s \<and> \<not> lk_is_cooldown s)"

definition is_working :: "agent_lock \<Rightarrow> bool" where
  "is_working s = (lk_is_agent_working s \<and> \<not> lk_is_cooldown s)"

definition is_cooling :: "agent_lock \<Rightarrow> bool" where
  "is_cooling s = (\<not> lk_is_agent_working s \<and> lk_is_cooldown s)"

definition acquired_state :: "agent_lock \<Rightarrow> string \<Rightarrow> real \<Rightarrow> agent_lock" where
  "acquired_state s task_id now =
     s\<lparr> lk_is_agent_working := True, lk_is_cooldown := False,
        lk_agent_start_time := Some now, lk_cooldown_start_time := None,
        lk_current_task_id := Some task_id \<rparr>"

definition acquire_blocked :: "agent_lock \<Rightarrow> real \<Rightarrow> bool" where
  "acquire_blocked s now =
     ((lk_is_cooldown s \<and> \<not> elapsed_over (lk_cooldown_start_time s) now (lk_cooldown_seconds s))
      \<or> (lk_is_agent_working s \<and> \<not> elapsed_over (lk_agent_start_time s) now (lk_timeout_seconds s)))"

definition guard_inv :: "agent_lock \<Rightarrow> bool" where
  "guard_inv s = (\<not> (lk_is_agent_working s \<and> lk_is_cooldown s))"

definition count_true :: "bool list \<Rightarrow> nat" where
  "count_true bs = length (filter (\<lambda>b. b) bs)"

text \<open>
  The clock reading of an operation, and the states in which a set flag comes with a
  recorded start time that is a truthy float. Every state that the operations reach
  from the initial one is such a state as long as the clock never reads \<open>0.0\<close>.
\<close>

fun op_time :: "guard_op \<Rightarrow> real" where
  "op_time (Acquire task_id now) = now"
| "op_time (Release task_id now) = now"
| "op_time (IsAgentWorking now) = now"
| "op_time (GetStatus now) = now"

definition times_recorded :: "agent_lock \<Rightarrow> bool" where
  "times_recorded s =
     ((lk_is_agent_working s \<longrightarrow> truthy_time (lk_agent_start_time s))
      \<and> (lk_is_cooldown s \<longrightarrow> truthy_time (lk_cooldown_start_time s)))"

section \<open>Free intervals (google\_calendar.py, get\_free\_intervals)\<close>

text \<open>
  A \<^verbatim>\<open>datetime\<close> is a point on the time line with a resolution of one microsecond;
  it is modelled as the integer number of microseconds since the epoch. A busy interval
  is the tuple \<^verbatim>\<open>(start_dt, end_dt)\<close> of the source, a free interval the dictionary
  with the keys \<^verbatim>\<open>start\<close> and \<^verbatim>\<open>end\<close>; both are pairs here, and both stand for
  the half-open range \<open>ivl\<close>.
\<close>

type_synonym interval = "int \<times> int"

definition ivl :: "interval \<Rightarrow> int set" where
  "ivl x = {fst x ..< snd x}"

definition cover :: "interval list \<Rightarrow> int set" where
  "cover xs = (\<Union>x \<in> set xs. ivl x)"

text \<open>
  The merge loop. \<^verbatim>\<open>busy_intervals.sort()\<close> sorts the tuples lexicographically, which
  is the order of pairs of \<open>HOL-Library.Product_Lexorder\<close>. One round of the loop is
  \<open>merge_step\<close>: \<^verbatim>\<open>merged[-1]\<close> is \<open>last merged\<close>, read only when the list is not
  empty.
\<close>

definition merge_step :: "interval list \<Rightarrow> interval \<Rightarrow> interval list" where
  "merge_step merged interval =
     (if merged = [] then [interval]
      else let l = last merged
           in if fst interval \<le> snd l
              then butlast merged @ [(fst l, max (snd l) (snd interval))]
              else merged @ [interval])"

definition merge_busy :: "interval list \<Rightarrow> interval list" where
  "merge_busy busy_intervals = foldl merge_step [] (sort busy_intervals)"

text \<open>
  The subtraction loop keeps the list \<^verbatim>\<open>free_intervals\<close> and the cursor
  \<^verbatim>\<open>current\<close>; one round is \<open>free_step\<close>.
\<close>

definition free_step :: "interval list \<times> int \<Rightarrow> interval \<Rightarrow> interval list \<times> int" where
  "free_step st busy =
     (case st of (free_intervals, current) \<Rightarrow>
        ((if fst busy > current then free_intervals @ [(current, fst busy)] else free_intervals),
         max current (snd busy)))"

text \<open>
  \<^verbatim>\<open>get_free_intervals\<close> from the point where the busy intervals of all accounts have
  been fetched and the two bounds have been normalised: \<open>interval_start\<close> and
  \<open>interval_end\<close> are the normalised bounds, \<open>busy_intervals\<close> the fetched list.
\<close>

definition get_free_intervals :: "int \<Rightarrow> int \<Rightarrow> interval list \<Rightarrow> interval list" where
  "get_free_intervals interval_start interval_end busy_intervals =
     (let merged = merge_busy busy_intervals
      in case foldl free_step ([], interval_start) merged of
           (free_intervals, current) \<Rightarrow>
             if current < interval_end then free_intervals @ [(current, interval_end)]
             else free_intervals)"

text \<open>
  The subtraction in the words of the specification: walk the busy intervals in order,
  emit the gap before each, move the cursor to the maximum of the cursor and the busy
  interval's end, and emit a last gap up to the end of the range if it is positive.
\<close>

fun subtract_spec :: "int \<Rightarrow> int \<Rightarrow> interval list \<Rightarrow> interval list" where
  "subtract_spec e cursor [] = (if cursor < e then [(cursor, e)] else [])"
| "subtract_spec e cursor (b # bs) =
     (if fst b > cursor then [(cursor, fst b)] else []) @ subtract_spec e (max cursor (snd b)) bs"

text \<open>
  The merge as a recursion over the sorted list with the interval under construction as
  an argument; it is shown below to compute what the loop computes.
\<close>

fun merge_from :: "interval \<Rightarrow> interval list \<Rightarrow> interval list" where
  "merge_from cur [] = [cur]"
| "merge_from cur (x # xs) =
     (if fst x \<le> snd cur then merge_from (fst cur, max (snd cur) (snd x)) xs
      else cur # merge_from x xs)"

text \<open>No two intervals of a list share a point.\<close>

fun disjoint_intervals :: "interval list \<Rightarrow> bool" where
  "disjoint_intervals [] = True"
| "disjoint_intervals (x # xs) = ((\<forall>y \<in> set xs. ivl x \<inter> ivl y = {}) \<and> disjoint_intervals xs)"

section \<open>Activity Hours (google\_calendar.py, get\_filtered\_free\_intervals\_for\_list)\<close>

text \<open>
  The filter works on datetimes of one time zone and uses their calendar fields: it
  replaces the time of day and reads the name of the weekday. A datetime is modelled,
  as before, as a number of microseconds, here counted on the wall clock of that zone
  from 1970-01-01 00:00, a Thursday; the offset of the zone is taken as fixed over the
  interval.
\<close>

definition us_per_minute :: int where
  "us_per_minute = 60000000"

















text \<open>
  The first loop of the function drops what lies in the past: an interval that ends by
  \<open>current_time\<close> is skipped, one that starts before it is cut to start there.
\<close>

definition future_intervals :: "int \<Rightarrow> interval list \<Rightarrow> interval list" where
  "future_intervals current_time free_intervals =
     concat (map (\<lambda>(start_dt, end_dt).
        if end_dt \<le> current_time then []
        else let start_dt' = (if start_dt < current_time then current_time else start_dt)
             in if start_dt' < end_dt then [(start_dt', end_dt)] else []) free_intervals)"





section \<open>Task data and change analysis (task\_processor.py)\<close>

text \<open>
  The dictionaries of a webhook event, with the types the task service gives their
  values. \<^verbatim>\<open>None\<close> and a missing key are both \<open>None\<close>: \<^verbatim>\<open>extract_task_data\<close>
  stores every key, and the code reads them with \<^verbatim>\<open>get\<close>. A due object and a duration
  object are dictionaries; of the due object the model keeps the keys the task service
  documents.
\<close>

record due_obj =
  due_date :: "string option"
  due_string :: "string option"
  due_is_recurring :: "bool option"
  due_timezone :: "string option"
  due_lang :: "string option"

record duration_obj =
  dur_amount :: "nat option"
  dur_unit :: "string option"

record task_item =
  t_content :: "string option"
  t_due :: "due_obj option"
  t_duration :: "duration_obj option"
  t_priority :: "int option"
  t_labels :: "string list option"
  t_description :: "string option"
  t_project_id :: "string option"
  t_section_id :: "string option"
  t_checked :: "bool option"

record task_data =
  t_event_name :: "string option"
  t_id :: "string option"
  t_item :: task_item
  t_old_item :: "task_item option"

text \<open>The value of one field, as \<^verbatim>\<open>data.get(field)\<close> returns it.\<close>

datatype field_value =
    VNone
  | VStr string
  | VInt int
  | VBool bool
  | VLabels "string list"
  | VDue due_obj
  | VDuration duration_obj

definition opt_value :: "('a \<Rightarrow> field_value) \<Rightarrow> 'a option \<Rightarrow> field_value" where
  "opt_value f x = (case x of None \<Rightarrow> VNone | Some v \<Rightarrow> f v)"

definition get_field :: "task_item \<Rightarrow> string \<Rightarrow> field_value" where
  "get_field d field =
     (if field = ''content'' then opt_value VStr (t_content d)
      else if field = ''due'' then opt_value VDue (t_due d)
      else if field = ''duration'' then opt_value VDuration (t_duration d)
      else if field = ''priority'' then opt_value VInt (t_priority d)
      else if field = ''labels'' then opt_value VLabels (t_labels d)
      else if field = ''description'' then opt_value VStr (t_description d)
      else if field = ''project_id'' then opt_value VStr (t_project_id d)
      else if field = ''section_id'' then opt_value VStr (t_section_id d)
      else if field = ''checked'' then opt_value VBool (t_checked d)
      else VNone)"

text \<open>Rendering of values in the messages: decimal numbers, \<^verbatim>\<open>str\<close>, \<^verbatim>\<open>join\<close>.\<close>

fun str_of_nat :: "nat \<Rightarrow> string" where
  "str_of_nat n =
     (if n < 10 then [''0123456789'' ! n]
      else str_of_nat (n div 10) @ [''0123456789'' ! (n mod 10)])"

definition str_of_int :: "int \<Rightarrow> string" where
  "str_of_int i = (if i < 0 then ''-'' @ str_of_nat (nat (- i)) else str_of_nat (nat i))"

fun join :: "string \<Rightarrow> string list \<Rightarrow> string" where
  "join sep [] = []"
| "join sep [x] = x"
| "join sep (x # y # ys) = x @ sep @ join sep (y # ys)"

definition sq :: string where
  "sq = [CHR 0x27]"

definition arrow :: string where
  "arrow = [CHR 0xE2, CHR 0x86, CHR 0x92]"

text \<open>
  \<^verbatim>\<open>str(value)\<close> for the values that reach an f-string: \<^verbatim>\<open>None\<close>, strings, numbers
  and booleans. Lists and dictionaries are formatted by the branches of their own
  fields and never by \<^verbatim>\<open>str\<close> on these payloads.
\<close>

fun py_str :: "field_value \<Rightarrow> string" where
  "py_str VNone = ''None''"
| "py_str (VStr s) = s"
| "py_str (VInt i) = str_of_int i"
| "py_str (VBool b) = (if b then ''True'' else ''False'')"
| "py_str (VLabels ls) = ''['' @ join '', '' (map (\<lambda>l. sq @ l @ sq) ls) @ '']''"
| "py_str (VDue d) = ''{...}''"
| "py_str (VDuration d) = ''{...}''"

text \<open>
  \<^verbatim>\<open>has_manual_scheduled_label\<close>: an empty or missing list of labels has none.
\<close>

definition manual_scheduled_variants :: "string list" where
  "manual_scheduled_variants =
     [''Manual Scheduled'', ''manual scheduled'', ''Manual scheduled'', ''manual_scheduled'',
      ''ManualScheduled'']"

definition has_manual_scheduled_label :: "task_item \<Rightarrow> bool" where
  "has_manual_scheduled_label d =
     (case t_labels d of
        None \<Rightarrow> False
      | Some labels \<Rightarrow> list_ex (\<lambda>label. label \<in> set manual_scheduled_variants) labels)"

text \<open>The dictionary \<^verbatim>\<open>changes\<close> that \<^verbatim>\<open>analyze_task_changes\<close> builds.\<close>

record changes =
  has_changes :: bool
  fields_changed :: "string list"
  change_details :: "(string \<times> field_value \<times> field_value \<times> string) list"
  change_summary :: "string list"
  significant_changes :: "string list"

definition important_fields :: "(string \<times> string) list" where
  "important_fields =
     [(''content'', ''Task title/content''), (''due'', ''Due date''), (''duration'', ''Duration''),
      (''priority'', ''Priority''), (''labels'', ''Labels''), (''description'', ''Description''),
      (''project_id'', ''Project''), (''section_id'', ''Section''),
      (''checked'', ''Completion status'')]"

definition add_note :: "changes \<Rightarrow> string list \<Rightarrow> string list \<Rightarrow> changes" where
  "add_note c summary tags =
     c\<lparr> change_summary := change_summary c @ summary,
        significant_changes := significant_changes c @ tags \<rparr>"

definition due_str :: "field_value \<Rightarrow> string" where
  "due_str v =
     (case v of VDue d \<Rightarrow> (case due_string d of None \<Rightarrow> ''Unknown'' | Some s \<Rightarrow> s) | _ \<Rightarrow> py_str v)"

definition duration_str :: "field_value \<Rightarrow> string" where
  "duration_str v =
     (case v of
        VDuration d \<Rightarrow>
          (case dur_amount d of None \<Rightarrow> ''?'' | Some a \<Rightarrow> str_of_nat a) @ '' ''
          @ (case dur_unit d of None \<Rightarrow> ''minutes'' | Some u \<Rightarrow> u)
      | _ \<Rightarrow> py_str v)"

definition priority_name :: "field_value \<Rightarrow> string" where
  "priority_name v =
     (if v = VInt 1 then ''Low'' else if v = VInt 2 then ''Normal''
      else if v = VInt 3 then ''High'' else if v = VInt 4 then ''Urgent''
      else ''Priority '' @ py_str v)"

definition labels_of :: "field_value \<Rightarrow> string list" where
  "labels_of v = (case v of VLabels ls \<Rightarrow> ls | _ \<Rightarrow> [])"

text \<open>
  \<^verbatim>\<open>set(xs) - set(ys)\<close>, listed in the order of \<open>xs\<close>; the order in which Python
  iterates over the set is not fixed, and only the joined text of a non-empty set
  depends on it.
\<close>

definition set_minus :: "string list \<Rightarrow> string list \<Rightarrow> string list" where
  "set_minus xs ys = remdups (filter (\<lambda>x. x \<notin> set ys) xs)"

definition truthy :: "field_value \<Rightarrow> bool" where
  "truthy v =
     (case v of VNone \<Rightarrow> False | VStr s \<Rightarrow> s \<noteq> [] | VInt i \<Rightarrow> i \<noteq> 0 | VBool b \<Rightarrow> b
      | VLabels ls \<Rightarrow> ls \<noteq> [] | VDue d \<Rightarrow> True | VDuration d \<Rightarrow> True)"

text \<open>
  The body of the loop of \<^verbatim>\<open>analyze_task_changes\<close> for one tracked field: nothing
  happens when the two values are equal; otherwise the field is recorded and the branch
  of the field adds its line and its tag.
\<close>

definition describe_change :: "changes \<Rightarrow> string \<Rightarrow> string \<Rightarrow> field_value \<Rightarrow> field_value \<Rightarrow> changes" where
  "describe_change c field field_description old_value new_value =
     (if field = ''due'' then
        (if old_value = VNone \<and> new_value \<noteq> VNone
         then add_note c [''Due date added: '' @ due_str new_value] [''due_date_added'']
         else if old_value \<noteq> VNone \<and> new_value = VNone
         then add_note c [''Due date removed''] [''due_date_removed'']
         else if old_value \<noteq> VNone \<and> new_value \<noteq> VNone
         then add_note c [''Due date changed: '' @ due_str old_value @ '' '' @ arrow @ '' ''
                          @ due_str new_value] [''due_date_changed'']
         else c)
      else if field = ''duration'' then
        (if old_value = VNone \<and> new_value \<noteq> VNone
         then add_note c [''Duration added: '' @ duration_str new_value] [''duration_added'']
         else if old_value \<noteq> VNone \<and> new_value = VNone
         then add_note c [''Duration removed''] [''duration_removed'']
         else if old_value \<noteq> VNone \<and> new_value \<noteq> VNone
         then add_note c [''Duration changed: '' @ duration_str old_value @ '' '' @ arrow @ '' ''
                          @ duration_str new_value] [''duration_changed'']
         else c)
      else if field = ''content'' then
        add_note c [''Title changed: '' @ sq @ py_str old_value @ sq @ '' '' @ arrow @ '' ''
                    @ sq @ py_str new_value @ sq] [''title_changed'']
      else if field = ''priority'' then
        add_note c [''Priority changed: '' @ priority_name old_value @ '' '' @ arrow @ '' ''
                    @ priority_name new_value] [''priority_changed'']
      else if field = ''labels'' then
        (let old_labels = labels_of old_value;
             new_labels = labels_of new_value;
             added_labels = set_minus new_labels old_labels;
             removed_labels = set_minus old_labels new_labels
         in add_note c
              ((if added_labels \<noteq> [] then [''Labels added: '' @ join '', '' added_labels] else [])
               @ (if removed_labels \<noteq> []
                  then [''Labels removed: '' @ join '', '' removed_labels] else []))
              (if added_labels \<noteq> [] \<or> removed_labels \<noteq> [] then [''labels_changed''] else []))
      else if field = ''description'' then
        add_note c
          [if old_value = VStr [] \<and> new_value \<noteq> VStr [] then ''Description added''
           else if old_value \<noteq> VStr [] \<and> new_value = VStr [] then ''Description removed''
           else ''Description modified'']
          [''description_changed'']
      else if field = ''checked'' then
        (if truthy new_value \<and> \<not> truthy old_value
         then add_note c [''Task completed''] [''task_completed'']
         else if \<not> truthy new_value \<and> truthy old_value
         then add_note c [''Task reopened''] [''task_reopened'']
         else c)
      else
        add_note c [field_description @ '' changed: '' @ py_str old_value @ '' '' @ arrow @ '' ''
                    @ py_str new_value] [])"

definition analyze_field :: "task_item \<Rightarrow> task_item \<Rightarrow> changes \<Rightarrow> string \<times> string \<Rightarrow> changes" where
  "analyze_field current_data old_data c fd =
     (case fd of (field, field_description) \<Rightarrow>
        let old_value = get_field old_data field;
            new_value = get_field current_data field
        in if old_value \<noteq> new_value
           then describe_change
                  (c\<lparr> has_changes := True,
                      fields_changed := fields_changed c @ [field],
                      change_details := change_details c
                        @ [(field, old_value, new_value, field_description)] \<rparr>)
                  field field_description old_value new_value
           else c)"

definition no_changes :: changes where
  "no_changes =
     \<lparr> has_changes = False, fields_changed = [], change_details = [], change_summary = [],
       significant_changes = [] \<rparr>"

definition analyze_task_changes :: "task_item \<Rightarrow> task_item \<Rightarrow> changes" where
  "analyze_task_changes current_data old_data =
     foldl (analyze_field current_data old_data) no_changes important_fields"

text \<open>A task used in the examples.\<close>

definition example_item :: task_item where
  "example_item =
     \<lparr> t_content = Some ''Write report'', t_due = None, t_duration = None,
       t_priority = Some 1, t_labels = Some [''home'', ''errand''], t_description = Some [],
       t_project_id = Some ''p1'', t_section_id = None, t_checked = Some False \<rparr>"

section \<open>The priority gate (task\_processor.py, should\_auto\_schedule\_by\_priority)\<close>

text \<open>
  The settings that the handlers read through \<^verbatim>\<open>config_manager\<close>. The entry of a
  list under \<^verbatim>\<open>auto_scheduling_priority\<close> is an integer in the old format, a
  dictionary with \<^verbatim>\<open>min_priority\<close> and \<^verbatim>\<open>enabled\<close> in the new one; any other value
  has no method \<^verbatim>\<open>get\<close>.
\<close>

datatype list_settings = OldFormat int | NewFormat "int option" "bool option" | Malformed

record settings =
  auto_scheduling_priority :: "string \<rightharpoonup> list_settings"
  project_mappings :: "string \<rightharpoonup> string"

text \<open>
  What a handler gets from outside. The module \<^verbatim>\<open>config_manager\<close> is not among the
  sources: its two functions are parameters, each returning a value or raising.
  \<open>env_agent\<close> is \<^verbatim>\<open>schedule_initial_tasks_agent\<close>, called with the task data and the
  list it was given as override, if any. \<open>env_autocategorize\<close> is
  \<^verbatim>\<open>autocategorize_task\<close>: it raises, or answers that the project is not configured
  for auto-categorization (\<open>None\<close>), or returns the message of a categorization.
  \<open>env_fromisoformat\<close> is the instant that
  \<^verbatim>\<open>datetime.fromisoformat\<close>, followed by \<^verbatim>\<open>astimezone\<close>, reads from a string, or
  \<open>None\<close> when it raises. \<open>env_now_local\<close> is \<^verbatim>\<open>datetime.now(local_tz)\<close>;
  \<open>env_time_enter\<close> and \<open>env_time_exit\<close> are the readings of \<^verbatim>\<open>time.time()\<close> when
  the lock is acquired and when it is released.
\<close>

record env =
  env_should_auto_schedule_task :: "int option \<Rightarrow> string \<Rightarrow> py_error + bool"
  env_load_settings :: "py_error + settings"
  env_agent :: "task_data \<Rightarrow> string option \<Rightarrow> py_error + string"
  env_autocategorize :: "task_data \<Rightarrow> py_error + string option"
  env_fromisoformat :: "string \<Rightarrow> int option"
  env_now_local :: int
  env_time_enter :: real
  env_time_exit :: real

definition exc_str :: "py_error \<Rightarrow> string" where
  "exc_str e =
     (case e of
        TypeError \<Rightarrow> ''unsupported operand type(s) for -: '' @ sq @ ''float'' @ sq @ '' and ''
                      @ sq @ ''NoneType'' @ sq
      | PyException m \<Rightarrow> m)"

text \<open>\<^verbatim>\<open>get_todos_list_from_project_id\<close> (google\_calendar.py) re-raises what loading raises.\<close>

definition get_todos_list_from_project_id :: "env \<Rightarrow> string \<Rightarrow> py_error + string option" where
  "get_todos_list_from_project_id ev project_id =
     (case env_load_settings ev of
        Inl e \<Rightarrow> Inl e
      | Inr s \<Rightarrow> Inr (project_mappings s project_id))"

definition effective_priority :: "int option \<Rightarrow> int" where
  "effective_priority priority = (case priority of None \<Rightarrow> 1 | Some p \<Rightarrow> p)"

definition api_priority_name :: "int \<Rightarrow> string" where
  "api_priority_name p =
     (if p = 4 then ''Urgent (P1)'' else if p = 3 then ''High (P2)''
      else if p = 2 then ''Normal (P3)'' else if p = 1 then ''Low (P4)''
      else ''API Priority '' @ str_of_int p)"

text \<open>The answer of the \<^verbatim>\<open>except\<close> branch.\<close>

definition priority_check_failed :: "int option \<Rightarrow> py_error \<Rightarrow> bool \<times> string" where
  "priority_check_failed priority e =
     (True, ''Priority check failed for priority '' @ str_of_int (effective_priority priority)
            @ '', defaulting to auto-schedule (error: '' @ exc_str e @ '')'')"

definition should_auto_schedule_by_priority :: "env \<Rightarrow> task_item \<Rightarrow> string \<Rightarrow> bool \<times> string" where
  "should_auto_schedule_by_priority ev task todos_list =
     (let priority = t_priority task
      in case env_should_auto_schedule_task ev priority todos_list of
           Inl e \<Rightarrow> priority_check_failed priority e
         | Inr True \<Rightarrow>
             (True, ''Priority '' @ str_of_int (effective_priority priority)
                    @ '' meets auto-scheduling threshold for '' @ todos_list @ '' list'')
         | Inr False \<Rightarrow>
             (case env_load_settings ev of
                Inl e \<Rightarrow> priority_check_failed priority e
              | Inr s \<Rightarrow>
                  (case (case auto_scheduling_priority s todos_list of
                           None \<Rightarrow> NewFormat None None | Some ls \<Rightarrow> ls) of
                     Malformed \<Rightarrow>
                       priority_check_failed priority
                         (PyException (sq @ ''str'' @ sq @ '' object has no attribute '' @ sq @ ''get'' @ sq))
                   | OldFormat old_priority \<Rightarrow>
                       (False, ''Priority '' @ str_of_int (effective_priority priority) @ '' (''
                          @ api_priority_name (effective_priority priority)
                          @ '') below auto-scheduling threshold (requires ''
                          @ api_priority_name (5 - old_priority) @ '' or higher for '' @ todos_list
                          @ '' list)'')
                   | NewFormat min_priority enabled \<Rightarrow>
                       if \<not> (case enabled of None \<Rightarrow> True | Some b \<Rightarrow> b)
                       then (False, ''Auto-scheduling is disabled for '' @ todos_list @ '' list'')
                       else (False, ''Priority '' @ str_of_int (effective_priority priority) @ '' (''
                          @ api_priority_name (effective_priority priority)
                          @ '') below auto-scheduling threshold (requires ''
                          @ api_priority_name (case min_priority of None \<Rightarrow> 1 | Some m \<Rightarrow> m)
                          @ '' or higher for '' @ todos_list @ '' list)''))))"

text \<open>
  Modelled from the spec: \<^verbatim>\<open>config_manager.should_auto_schedule_task\<close> is not among the
  sources. The specification says that a task's effective priority (an absent priority
  is 1) must meet or exceed the category's configured minimum-priority threshold, and
  that the category's automation must be enabled. It is used below to build examples of
  an environment.
\<close>

definition should_auto_schedule_task :: "settings \<Rightarrow> int option \<Rightarrow> string \<Rightarrow> py_error + bool" where
  "should_auto_schedule_task s priority todos_list =
     (case auto_scheduling_priority s todos_list of
        None \<Rightarrow> Inr (effective_priority priority \<ge> 1)
      | Some (OldFormat old_priority) \<Rightarrow> Inr (effective_priority priority \<ge> 5 - old_priority)
      | Some (NewFormat min_priority enabled) \<Rightarrow>
          Inr ((case enabled of None \<Rightarrow> True | Some b \<Rightarrow> b)
               \<and> effective_priority priority \<ge> (case min_priority of None \<Rightarrow> 1 | Some m \<Rightarrow> m))
      | Some Malformed \<Rightarrow> Inl (PyException ''malformed settings''))"

section \<open>The handler of updates (task\_processor.py, handle\_task\_updated)\<close>

text \<open>
  The last datetime, 9999-12-31 23:59:59.999999: \<^verbatim>\<open>datetime + timedelta\<close> raises
  OverflowError when the sum lies beyond it. A duration is not negative.
\<close>

definition dt_max :: int where
  "dt_max = 253402300799999999"

definition add_minutes :: "int \<Rightarrow> nat \<Rightarrow> int option" where
  "add_minutes dt m =
     (let r = dt + int m * us_per_minute in if r \<le> dt_max then Some r else None)"

text \<open>The conversion of the duration to minutes; a missing duration counts as 0.\<close>

definition duration_minutes_of :: "duration_obj option \<Rightarrow> nat" where
  "duration_minutes_of duration =
     (case duration of
        None \<Rightarrow> 0
      | Some d \<Rightarrow>
          let duration_amount = (case dur_amount d of None \<Rightarrow> 0 | Some a \<Rightarrow> a);
              duration_unit = (case dur_unit d of None \<Rightarrow> ''minute'' | Some u \<Rightarrow> u)
          in if duration_unit = ''minute'' then duration_amount
             else if duration_unit = ''hour'' then duration_amount * 60
             else if duration_unit = ''day'' then duration_amount * 24 * 60
             else 0)"

text \<open>\<^verbatim>\<open>due_date_str.replace('Z', '+00:00')\<close> when the string ends with Z.\<close>

definition normalize_z :: "string \<Rightarrow> string" where
  "normalize_z s =
     (if s \<noteq> [] \<and> last s = CHR ''Z''
      then concat (map (\<lambda>c. if c = CHR ''Z'' then ''+00:00'' else [c]) s)
      else s)"

text \<open>
  The due moment of the task, when it has one that can be read: the due object must be
  there, its \<^verbatim>\<open>date\<close> must be a non-empty string, and the string must parse.
\<close>

definition due_moment :: "env \<Rightarrow> task_item \<Rightarrow> int option" where
  "due_moment ev task =
     (case t_due task of
        None \<Rightarrow> None
      | Some current_due \<Rightarrow>
          (case due_date current_due of
             None \<Rightarrow> None
           | Some due_date_str \<Rightarrow>
               if due_date_str = [] then None else env_fromisoformat ev (normalize_z due_date_str)))"

datatype reschedule_reason =
    PriorityChangedReason string string
  | OverdueReason int nat int

definition name_of_priority :: "int \<Rightarrow> string" where
  "name_of_priority p =
     (if p = 1 then ''Low'' else if p = 2 then ''Normal'' else if p = 3 then ''High''
      else if p = 4 then ''Urgent'' else ''Priority '' @ str_of_int p)"

text \<open>
  The decision of lines 397 to 483: the flag \<^verbatim>\<open>should_reschedule\<close> and the reason.
  Every exception between parsing and comparing ends in "do not reschedule".
\<close>

definition should_reschedule :: "env \<Rightarrow> task_item \<Rightarrow> task_item \<Rightarrow> bool \<Rightarrow> bool \<times> reschedule_reason option" where
  "should_reschedule ev task old_item priority_changed =
     (if priority_changed
      then (True, Some (PriorityChangedReason
                          (name_of_priority (effective_priority (t_priority old_item)))
                          (name_of_priority (effective_priority (t_priority task)))))
      else case due_moment ev task of
             None \<Rightarrow> (False, None)
           | Some due_date_local \<Rightarrow>
               let duration_minutes = duration_minutes_of (t_duration task)
               in case add_minutes due_date_local duration_minutes of
                    None \<Rightarrow> (False, None)
                  | Some task_end_time \<Rightarrow>
                      if task_end_time < env_now_local ev
                      then (True, Some (OverdueReason due_date_local duration_minutes (env_now_local ev)))
                      else (False, None))"

text \<open>
  The context manager \<^verbatim>\<open>agent_working\<close>: entering acquires the lock or raises, leaving
  releases it. The body is a value or an exception; the lock is released in both cases.
\<close>

definition aenter :: "agent_lock \<Rightarrow> string \<Rightarrow> real \<Rightarrow> agent_lock \<times> (py_error + unit)" where
  "aenter g task_id now =
     (case acquire_agent_lock g task_id now of
        (g', Inl e) \<Rightarrow> (g', Inl e)
      | (g', Inr acquired) \<Rightarrow>
          if \<not> acquired
          then (g', Inl (PyException (''Agent is busy, cannot process task '' @ task_id)))
          else (g', Inr ()))"

definition aexit :: "agent_lock \<Rightarrow> string \<Rightarrow> real \<Rightarrow> agent_lock" where
  "aexit g task_id now = release_agent_lock g task_id now"

text \<open>
  What the handler returns, one constructor for each message: the task is marked as
  manually scheduled; there is no old item; no field changed; no rescheduling is needed
  (with the summary and the flag \<^verbatim>\<open>priority_changed\<close>); rescheduling was skipped by the
  priority gate (with its reason and the summary); the task was rescheduled (reason,
  summary, answer of the agent); rescheduling failed (summary and \<^verbatim>\<open>str(e)\<close>); and
  \<^verbatim>\<open>None\<close>, returned when the task has no project or the project has no list.
\<close>

datatype update_result =
    ManuallyScheduled
  | NoOldItem
  | NoSignificantChanges
  | NoReschedulingNeeded string bool
  | ReschedulingSkipped string string
  | Rescheduled reschedule_reason string string
  | ReschedulingFailed string string
  | ReturnedNone

text \<open>
  The effects of one call: the lock afterwards, the value returned, the actions passed
  to \<^verbatim>\<open>log_task_action\<close> with their reason, and, for every call of the agent, the
  list it was given as override.
\<close>

record 'r handler_result =
  hr_lock :: agent_lock
  hr_result :: 'r
  hr_log :: "(string \<times> string) list"
  hr_agent_calls :: "string option list"

text \<open>
  The body of \<^verbatim>\<open>async with agent_working(...)\<close> in the handler of updates: the list of
  the project, the priority gate, the agent. It yields the value returned, the log and
  the calls of the agent.
\<close>

definition reschedule_body ::
    "env \<Rightarrow> task_data \<Rightarrow> string \<Rightarrow> reschedule_reason \<Rightarrow> update_result \<times> (string \<times> string) list \<times> string option list" where
  "reschedule_body ev td summary reason =
     (case t_project_id (t_item td) of
        None \<Rightarrow> (ReturnedNone, [], [])
      | Some project_id \<Rightarrow>
          if project_id = [] then (ReturnedNone, [], [])
          else case get_todos_list_from_project_id ev project_id of
                 Inl e \<Rightarrow> (ReschedulingFailed summary (exc_str e), [(''failed'', exc_str e)], [])
               | Inr None \<Rightarrow> (ReturnedNone, [], [])
               | Inr (Some todos_list) \<Rightarrow>
                   if todos_list = [] then (ReturnedNone, [], [])
                   else case should_auto_schedule_by_priority ev (t_item td) todos_list of
                          (should_schedule, priority_reason) \<Rightarrow>
                            if \<not> should_schedule
                            then (ReschedulingSkipped priority_reason summary,
                                  [(''skipped'', ''priority_below_threshold'')], [])
                            else case env_agent ev td (Some todos_list) of
                                   Inl e \<Rightarrow> (ReschedulingFailed summary (exc_str e),
                                             [(''failed'', exc_str e)], [Some todos_list])
                                 | Inr agent_result \<Rightarrow>
                                     (Rescheduled reason summary agent_result,
                                      [(''rescheduled'', summary)], [Some todos_list]))"

text \<open>
  The branch \<^verbatim>\<open>if should_reschedule\<close>: the lock is acquired first, then the body runs,
  then the lock is released. When entering raises, the body does not run and nothing
  is released.
\<close>

definition reschedule ::
    "env \<Rightarrow> agent_lock \<Rightarrow> task_data \<Rightarrow> string \<Rightarrow> reschedule_reason \<Rightarrow> update_result handler_result" where
  "reschedule ev g td summary reason =
     (let task_id = (case t_id td of None \<Rightarrow> ''unknown'' | Some i \<Rightarrow> i)
      in case aenter g task_id (env_time_enter ev) of
           (g1, Inl e) \<Rightarrow>
             \<lparr> hr_lock = g1, hr_result = ReschedulingFailed summary (exc_str e),
               hr_log = [(''failed'', exc_str e)], hr_agent_calls = [] \<rparr>
         | (g1, Inr u) \<Rightarrow>
             (case reschedule_body ev td summary reason of
                (result, logged, calls) \<Rightarrow>
                  \<lparr> hr_lock = aexit g1 task_id (env_time_exit ev), hr_result = result,
                    hr_log = logged, hr_agent_calls = calls \<rparr>))"

definition handle_task_updated :: "env \<Rightarrow> agent_lock \<Rightarrow> task_data \<Rightarrow> update_result handler_result" where
  "handle_task_updated ev g td =
     (if has_manual_scheduled_label (t_item td)
      then \<lparr> hr_lock = g, hr_result = ManuallyScheduled,
             hr_log = [(''skipped'', ''manual_scheduled_label'')], hr_agent_calls = [] \<rparr>
      else case t_old_item td of
             None \<Rightarrow>
               \<lparr> hr_lock = g, hr_result = NoOldItem,
                 hr_log = [(''ignored'', ''no_old_item_data'')], hr_agent_calls = [] \<rparr>
           | Some old_item \<Rightarrow>
               let change_analysis = analyze_task_changes (t_item td) old_item
               in if has_changes change_analysis
                  then
                    let summary = join ''; '' (change_summary change_analysis);
                        priority_changed =
                          (''priority_changed'' \<in> set (significant_changes change_analysis))
                    in case should_reschedule ev (t_item td) old_item priority_changed of
                         (True, Some reason) \<Rightarrow> reschedule ev g td summary reason
                       | _ \<Rightarrow>
                           \<lparr> hr_lock = g, hr_result = NoReschedulingNeeded summary priority_changed,
                             hr_log = [(''ignored'', ''no_rescheduling_needed'')],
                             hr_agent_calls = [] \<rparr>
                  else
                    \<lparr> hr_lock = g, hr_result = NoSignificantChanges,
                      hr_log = [(''ignored'', ''no_significant_changes'')], hr_agent_calls = [] \<rparr>)"

section \<open>The handler of new tasks (task\_processor.py, handle\_task\_added)\<close>

text \<open>
  What the handler returns, one constructor for each message: the message of the
  categorization; the task is marked as manually scheduled; it has no project; the
  project has no list; the priority gate skipped it (with the reason); the task was
  scheduled (with the answer of the agent); scheduling failed (with \<^verbatim>\<open>str(e)\<close>).
\<close>

datatype added_result =
    Categorized string
  | AddedManuallyScheduled
  | NoProjectId
  | NoTodosListMapping string
  | AddedSkipped string
  | Scheduled string
  | SchedulingFailed string

definition truthy_str :: "string option \<Rightarrow> bool" where
  "truthy_str s = (case s of None \<Rightarrow> False | Some x \<Rightarrow> x \<noteq> [])"

text \<open>
  The part of the handler after the categorization. The list of the project is looked
  up outside every \<^verbatim>\<open>try\<close>, so what the lookup raises leaves the handler. The priority
  gate comes before \<^verbatim>\<open>async with agent_working(...)\<close>.
\<close>

definition schedule_new_task :: "env \<Rightarrow> agent_lock \<Rightarrow> task_data \<Rightarrow> (py_error + added_result) handler_result" where
  "schedule_new_task ev g td =
     (let task_id = (case t_id td of None \<Rightarrow> ''unknown'' | Some i \<Rightarrow> i)
      in if has_manual_scheduled_label (t_item td)
         then \<lparr> hr_lock = g, hr_result = Inr AddedManuallyScheduled,
                hr_log = [(''skipped'', ''manual_scheduled_label'')], hr_agent_calls = [] \<rparr>
         else case t_project_id (t_item td) of
                None \<Rightarrow> \<lparr> hr_lock = g, hr_result = Inr NoProjectId,
                          hr_log = [(''skipped'', ''no_project_id'')], hr_agent_calls = [] \<rparr>
              | Some project_id \<Rightarrow>
                  if project_id = []
                  then \<lparr> hr_lock = g, hr_result = Inr NoProjectId,
                         hr_log = [(''skipped'', ''no_project_id'')], hr_agent_calls = [] \<rparr>
                  else case get_todos_list_from_project_id ev project_id of
                         Inl e \<Rightarrow> \<lparr> hr_lock = g, hr_result = Inl e, hr_log = [], hr_agent_calls = [] \<rparr>
                       | Inr None \<Rightarrow>
                           \<lparr> hr_lock = g, hr_result = Inr (NoTodosListMapping project_id),
                             hr_log = [(''skipped'', ''no_todos_list_mapping'')], hr_agent_calls = [] \<rparr>
                       | Inr (Some todos_list) \<Rightarrow>
                           if todos_list = []
                           then \<lparr> hr_lock = g, hr_result = Inr (NoTodosListMapping project_id),
                                  hr_log = [(''skipped'', ''no_todos_list_mapping'')],
                                  hr_agent_calls = [] \<rparr>
                           else case should_auto_schedule_by_priority ev (t_item td) todos_list of
                                  (should_schedule, priority_reason) \<Rightarrow>
                                    if \<not> should_schedule
                                    then \<lparr> hr_lock = g, hr_result = Inr (AddedSkipped priority_reason),
                                           hr_log = [(''skipped'', ''priority_below_threshold'')],
                                           hr_agent_calls = [] \<rparr>
                                    else case aenter g task_id (env_time_enter ev) of
                                           (g1, Inl e) \<Rightarrow>
                                             \<lparr> hr_lock = g1, hr_result = Inr (SchedulingFailed (exc_str e)),
                                               hr_log = [(''failed'', exc_str e)], hr_agent_calls = [] \<rparr>
                                         | (g1, Inr u) \<Rightarrow>
                                             (case env_agent ev td None of
                                                Inl e \<Rightarrow>
                                                  \<lparr> hr_lock = aexit g1 task_id (env_time_exit ev),
                                                    hr_result = Inr (SchedulingFailed (exc_str e)),
                                                    hr_log = [(''failed'', exc_str e)],
                                                    hr_agent_calls = [None] \<rparr>
                                              | Inr agent_result \<Rightarrow>
                                                  \<lparr> hr_lock = aexit g1 task_id (env_time_exit ev),
                                                    hr_result = Inr (Scheduled agent_result),
                                                    hr_log = [(''rescheduled'', agent_result)],
                                                    hr_agent_calls = [None] \<rparr>))"

text \<open>
  \<^verbatim>\<open>handle_task_added\<close>: a task with a project is offered to the categorization first;
  when that categorizes, its message is the result; when it raises, the failure is
  logged and the handler goes on.
\<close>

definition handle_task_added :: "env \<Rightarrow> agent_lock \<Rightarrow> task_data \<Rightarrow> (py_error + added_result) handler_result" where
  "handle_task_added ev g td =
     (if truthy_str (t_project_id (t_item td))
      then case env_autocategorize ev td of
             Inr (Some result) \<Rightarrow>
               \<lparr> hr_lock = g, hr_result = Inr (Categorized result),
                 hr_log = [(''categorized'', ''auto_categorization'')], hr_agent_calls = [] \<rparr>
           | Inr None \<Rightarrow> schedule_new_task ev g td
           | Inl e \<Rightarrow>
               (let r = schedule_new_task ev g td
                in r\<lparr> hr_log := (''failed'', exc_str e) # hr_log r \<rparr>)
      else schedule_new_task ev g td)"

section \<open>The router (task\_processor.py, router)\<close>

text \<open>
  The module \<^verbatim>\<open>central_logger\<close> is not among the sources. The router calls
  \<^verbatim>\<open>log_trigger_received\<close> before its \<^verbatim>\<open>try\<close> and \<^verbatim>\<open>log_task_action\<close> inside its
  \<^verbatim>\<open>except\<close> branch; each call is a parameter that returns (\<open>None\<close>) or raises
  (\<open>Some e\<close>), and what it raises there leaves the router. The handlers of completed
  and deleted tasks and of calendar events call the task service and the agent; they
  are parameters as well, each returning a new lock and a message or raising.
\<close>

record logger =
  log_trigger_received :: "string \<Rightarrow> task_data \<Rightarrow> py_error option"
  log_task_action :: "string \<Rightarrow> task_data \<Rightarrow> string \<Rightarrow> py_error option"

record handlers =
  handle_task_completed :: "agent_lock \<Rightarrow> task_data \<Rightarrow> agent_lock \<times> (py_error + string)"
  handle_task_deleted :: "agent_lock \<Rightarrow> task_data \<Rightarrow> agent_lock \<times> (py_error + string)"
  handle_calendar_reschedule :: "agent_lock \<Rightarrow> task_data \<Rightarrow> agent_lock \<times> (py_error + string)"

text \<open>\<^verbatim>\<open>trigger_type_map.get(event_name, f"unknown_{event_name}")\<close>.\<close>

definition trigger_type_of :: "string \<Rightarrow> string" where
  "trigger_type_of event_name =
     (if event_name = ''item:added'' then ''task_created''
      else if event_name = ''item:updated'' then ''task_updated''
      else if event_name = ''item:completed'' then ''task_completed''
      else if event_name = ''item:deleted'' then ''task_deleted''
      else if event_name = ''calendar:event_end'' then ''calendar_event_end''
      else ''unknown_'' @ event_name)"

definition handle_unknown_event :: "logger \<Rightarrow> task_data \<Rightarrow> string \<Rightarrow> py_error + string" where
  "handle_unknown_event lg td event_name =
     (let result_msg = ''Unknown event type '' @ sq @ event_name @ sq @ '' - no handler implemented''
      in case log_task_action lg ''ignored'' td result_msg of
           Some e \<Rightarrow> Inl e
         | None \<Rightarrow> Inr result_msg)"

text \<open>
  The value that a handler hands to the router: a message, or the value of the handler
  of updates or of new tasks. \<open>None\<close> is Python's \<^verbatim>\<open>None\<close>, which the handler of
  updates returns when it falls off its end.
\<close>

datatype handler_return = Text string | UpdateOutcome update_result | AddedOutcome added_result

definition as_text :: "agent_lock \<times> (py_error + string) \<Rightarrow> agent_lock \<times> (py_error + handler_return option)" where
  "as_text r = (case r of (g, Inl e) \<Rightarrow> (g, Inl e) | (g, Inr m) \<Rightarrow> (g, Inr (Some (Text m))))"

definition update_return :: "update_result \<Rightarrow> handler_return option" where
  "update_return r = (if r = ReturnedNone then None else Some (UpdateOutcome r))"

text \<open>The chain of comparisons inside \<^verbatim>\<open>try\<close>.\<close>

definition dispatch ::
    "env \<Rightarrow> logger \<Rightarrow> handlers \<Rightarrow> agent_lock \<Rightarrow> task_data \<Rightarrow> string
       \<Rightarrow> agent_lock \<times> (py_error + handler_return option)" where
  "dispatch ev lg hs g td event_name =
     (if event_name = ''item:added''
      then (let r = handle_task_added ev g td
            in (hr_lock r, map_sum (\<lambda>e. e) (\<lambda>a. Some (AddedOutcome a)) (hr_result r)))
      else if event_name = ''item:updated''
      then (let r = handle_task_updated ev g td in (hr_lock r, Inr (update_return (hr_result r))))
      else if event_name = ''item:completed'' then as_text (handle_task_completed hs g td)
      else if event_name = ''item:deleted'' then as_text (handle_task_deleted hs g td)
      else if event_name = ''calendar:event_end'' then as_text (handle_calendar_reschedule hs g td)
      else as_text (g, handle_unknown_event lg td event_name))"

text \<open>
  The three dictionaries that the router returns, without the time stamp: the error for
  a missing event name; the success with event name, task id, task content and
  \<^verbatim>\<open>result\<close>; the error with event name, task id and \<^verbatim>\<open>str(e)\<close>.
\<close>

datatype router_result =
    MissingEventNameResult
  | SuccessResult string "string option" "string option" "handler_return option"
  | ErrorResult string "string option" string

fun rr_status :: "router_result \<Rightarrow> string" where
  "rr_status MissingEventNameResult = ''error''"
| "rr_status (SuccessResult event_name task_id task_content result) = ''success''"
| "rr_status (ErrorResult event_name task_id error) = ''error''"

text \<open>
  \<^verbatim>\<open>router\<close>. It returns a dictionary, or raises what one of its two logging calls
  raises.
\<close>

definition router ::
    "env \<Rightarrow> logger \<Rightarrow> handlers \<Rightarrow> agent_lock \<Rightarrow> task_data \<Rightarrow> agent_lock \<times> (py_error + router_result)" where
  "router ev lg hs g td =
     (case t_event_name td of
        None \<Rightarrow> (g, Inr MissingEventNameResult)
      | Some event_name \<Rightarrow>
          if event_name = [] then (g, Inr MissingEventNameResult)
          else case log_trigger_received lg (trigger_type_of event_name) td of
                 Some e \<Rightarrow> (g, Inl e)
               | None \<Rightarrow>
                   (case dispatch ev lg hs g td event_name of
                      (g', Inr result) \<Rightarrow>
                        (g', Inr (SuccessResult event_name (t_id td) (t_content (t_item td)) result))
                    | (g', Inl e) \<Rightarrow>
                        (case log_task_action lg ''failed'' td (''Processing failed: '' @ exc_str e) of
                           Some e' \<Rightarrow> (g', Inl e')
                         | None \<Rightarrow> (g', Inr (ErrorResult event_name (t_id td) (exc_str e))))))"

text \<open>
  "Overdue" in the words of the specification: the due moment plus the duration lies
  strictly before now; a task without duration is overdue once the due moment has
  passed, and a task without a due moment is never overdue.
\<close>

definition overdue_spec :: "env \<Rightarrow> task_item \<Rightarrow> bool" where
  "overdue_spec ev task =
     (case due_moment ev task of
        None \<Rightarrow> False
      | Some due \<Rightarrow> due + int (duration_minutes_of (t_duration task)) * us_per_minute < env_now_local ev)"

text \<open>
  An environment for the examples: the list work asks for priority 3 and the project p1
  belongs to it, which is not configured for categorization; the agent answers; one date
  string parses, to Monday 1970-01-05 09:00;
  now is 12:00 of that day.
\<close>

definition example_settings :: settings where
  "example_settings =
     \<lparr> auto_scheduling_priority = [''work'' \<mapsto> NewFormat (Some 3) (Some True)],
       project_mappings = [''p1'' \<mapsto> ''work''] \<rparr>"

definition example_env :: env where
  "example_env =
     \<lparr> env_should_auto_schedule_task = should_auto_schedule_task example_settings,
       env_load_settings = Inr example_settings,
       env_agent = (\<lambda>td todos_list. Inr ''scheduled''),
       env_autocategorize = (\<lambda>td. Inr None),
       env_fromisoformat =
         (\<lambda>s. if s = ''1970-01-05T09:00:00+00:00'' then Some 378000000000 else None),
       env_now_local = 388800000000,
       env_time_enter = 1000,
       env_time_exit = 1010 \<rparr>"

definition example_update :: "task_item \<Rightarrow> task_data" where
  "example_update current =
     \<lparr> t_event_name = Some ''item:updated'', t_id = Some ''t1'', t_item = current,
       t_old_item = Some example_item \<rparr>"

text \<open>More tasks, events and environments for the examples.\<close>

definition manual_item :: task_item where
  "manual_item = example_item\<lparr> t_labels := Some [''Manual Scheduled''] \<rparr>"

definition manual_update :: task_data where
  "manual_update =
     \<lparr> t_event_name = Some ''item:updated'', t_id = Some ''t1'',
       t_item = manual_item\<lparr> t_priority := Some 4 \<rparr>, t_old_item = Some manual_item \<rparr>"

definition failing_gate_env :: env where
  "failing_gate_env =
     example_env\<lparr> env_should_auto_schedule_task :=
       (\<lambda>priority todos_list. Inl (PyException ''settings unavailable'')) \<rparr>"

definition example_handlers :: handlers where
  "example_handlers =
     \<lparr> handle_task_completed = (\<lambda>g td. (g, Inr ''Task completion processed successfully.'')),
       handle_task_deleted = (\<lambda>g td. (g, Inr ''Task deletion processed successfully'')),
       handle_calendar_reschedule = (\<lambda>g td. (g, Inr ''Calendar-triggered reschedule completed'')) \<rparr>"

definition quiet_logger :: logger where
  "quiet_logger =
     \<lparr> log_trigger_received = (\<lambda>trigger_type td. None),
       log_task_action = (\<lambda>action td message. None) \<rparr>"

text \<open>
  An update that raises the priority of a task without project from 1 to 4.
\<close>

definition update_without_project :: task_data where
  "update_without_project =
     \<lparr> t_event_name = Some ''item:updated'', t_id = Some ''t1'',
       t_item = example_item\<lparr> t_priority := Some 4, t_project_id := None \<rparr>,
       t_old_item = Some (example_item\<lparr> t_project_id := None \<rparr>) \<rparr>"

section \<open>Properties of the agent lock\<close>

lemmas guard_state_defs = is_working_def is_cooling_def is_idle_def

lemma acquire_not_blocked:
  "\<not> acquire_blocked s now \<Longrightarrow>
   acquire_agent_lock s task_id now = (acquired_state s task_id now, Inr True)"
  by (simp add: acquire_agent_lock_def acquire_blocked_def acquired_state_def Let_def)

lemma acquire_True_iff:
  "acquire_agent_lock s task_id now = (s', Inr True) \<longleftrightarrow>
   \<not> acquire_blocked s now \<and> s' = acquired_state s task_id now"
  by (auto simp add: acquire_agent_lock_def acquire_blocked_def acquired_state_def Let_def)

lemma acquire_working_blocked:
  "is_working s \<Longrightarrow> \<not> elapsed_over (lk_agent_start_time s) now (lk_timeout_seconds s) \<Longrightarrow>
   acquire_agent_lock s task_id now = (s, Inr False)"
  by (simp add: acquire_agent_lock_def is_working_def)

lemma acquire_cooling_blocked:
  "is_cooling s \<Longrightarrow> lk_cooldown_start_time s = Some c \<Longrightarrow>
   \<not> elapsed_over (lk_cooldown_start_time s) now (lk_cooldown_seconds s) \<Longrightarrow>
   acquire_agent_lock s task_id now = (s, Inr False)"
  by (simp add: acquire_agent_lock_def is_cooling_def)

lemma acquired_state_fields:
  "is_working (acquired_state s task_id now)"
  "lk_current_task_id (acquired_state s task_id now) = Some task_id"
  "lk_agent_start_time (acquired_state s task_id now) = Some now"
  by (simp_all add: acquired_state_def is_working_def)

text \<open>
  Claim C1. A call of \<^verbatim>\<open>acquire_agent_lock\<close> in state Working whose elapsed time
  \<open>now - t\<close> is below the timeout returns not-acquired and changes nothing; above the
  timeout it acquires, without any release in between. In state Cooldown it returns
  not-acquired while \<open>now - c\<close> is below the cooldown duration and acquires once the
  duration is exceeded. From Idle it acquires. Whenever it acquires, the new state is
  Working and holds the caller's task id and \<open>now\<close> as start time. The two expiry
  cases need the recorded start time to be a truthy float, that is a clock reading other
  than \<open>0.0\<close>, because the source tests the start time's truth value before it
  compares. The defaults 300 and 3 are the values of \<open>AgentLock_init\<close>.
\<close>

theorem acquire_agent_lock_spec:
  "(is_working s \<and> lk_agent_start_time s = Some t \<and> now - t < lk_timeout_seconds s
      \<longrightarrow> acquire_agent_lock s task_id now = (s, Inr False))
   \<and> (is_working s \<and> lk_agent_start_time s = Some t \<and> t \<noteq> 0 \<and> now - t > lk_timeout_seconds s
      \<longrightarrow> acquire_agent_lock s task_id now = (acquired_state s task_id now, Inr True))
   \<and> (is_cooling s \<and> lk_cooldown_start_time s = Some c \<and> now - c < lk_cooldown_seconds s
      \<longrightarrow> acquire_agent_lock s task_id now = (s, Inr False))
   \<and> (is_cooling s \<and> lk_cooldown_start_time s = Some c \<and> c \<noteq> 0 \<and> now - c > lk_cooldown_seconds s
      \<longrightarrow> acquire_agent_lock s task_id now = (acquired_state s task_id now, Inr True))
   \<and> (is_idle s \<longrightarrow> acquire_agent_lock s task_id now = (acquired_state s task_id now, Inr True))
   \<and> (\<forall>s'. acquire_agent_lock s task_id now = (s', Inr True)
      \<longrightarrow> s' = acquired_state s task_id now \<and> is_working s' \<and> lk_current_task_id s' = Some task_id
          \<and> lk_agent_start_time s' = Some now)"
proof (intro conjI impI allI)
  assume "is_working s \<and> lk_agent_start_time s = Some t \<and> now - t < lk_timeout_seconds s"
  then show "acquire_agent_lock s task_id now = (s, Inr False)"
    by (intro acquire_working_blocked) (simp_all add: elapsed_over_def)
next
  assume "is_working s \<and> lk_agent_start_time s = Some t \<and> t \<noteq> 0 \<and> now - t > lk_timeout_seconds s"
  then have "\<not> acquire_blocked s now"
    by (simp add: acquire_blocked_def elapsed_over_def is_working_def)
  then show "acquire_agent_lock s task_id now = (acquired_state s task_id now, Inr True)"
    by (rule acquire_not_blocked)
next
  assume "is_cooling s \<and> lk_cooldown_start_time s = Some c \<and> now - c < lk_cooldown_seconds s"
  then show "acquire_agent_lock s task_id now = (s, Inr False)"
    by (intro acquire_cooling_blocked [where c = c]) (simp_all add: elapsed_over_def)
next
  assume "is_cooling s \<and> lk_cooldown_start_time s = Some c \<and> c \<noteq> 0 \<and> now - c > lk_cooldown_seconds s"
  then have "\<not> acquire_blocked s now"
    by (simp add: acquire_blocked_def elapsed_over_def is_cooling_def)
  then show "acquire_agent_lock s task_id now = (acquired_state s task_id now, Inr True)"
    by (rule acquire_not_blocked)
next
  assume "is_idle s"
  then have "\<not> acquire_blocked s now"
    by (simp add: acquire_blocked_def is_idle_def)
  then show "acquire_agent_lock s task_id now = (acquired_state s task_id now, Inr True)"
    by (rule acquire_not_blocked)
next
  fix s' assume a: "acquire_agent_lock s task_id now = (s', Inr True)"
  then show "s' = acquired_state s task_id now" by (simp add: acquire_True_iff)
  with acquired_state_fields [of s task_id now]
  show "is_working s'" "lk_current_task_id s' = Some task_id" "lk_agent_start_time s' = Some now"
    by simp_all
qed

lemma acquired_init:
  "acquired_state AgentLock_init task_id now =
     \<lparr> lk_is_agent_working = True, lk_is_cooldown = False,
       lk_agent_start_time = Some now, lk_cooldown_start_time = None,
       lk_current_task_id = Some task_id,
       lk_timeout_seconds = 300, lk_cooldown_seconds = 3 \<rparr>"
  by (simp add: acquired_state_def AgentLock_init_def)

text \<open>
  The cases of C1 on the lock with the default limits: T1 acquires at 1000; T2 is refused
  at 1100 and acquires at 1301; after T1's release at 1010, T2 is refused at 1011 and
  acquires at 1014.
\<close>

theorem acquire_agent_lock_spec_witness:
  "acquire_agent_lock (acquired_state AgentLock_init ''T1'' 1000) ''T2'' 1100
     = (acquired_state AgentLock_init ''T1'' 1000, Inr False)
   \<and> acquire_agent_lock (acquired_state AgentLock_init ''T1'' 1000) ''T2'' 1301
     = (acquired_state (acquired_state AgentLock_init ''T1'' 1000) ''T2'' 1301, Inr True)
   \<and> acquire_agent_lock (release_agent_lock (acquired_state AgentLock_init ''T1'' 1000) ''T1'' 1010) ''T2'' 1011
     = (release_agent_lock (acquired_state AgentLock_init ''T1'' 1000) ''T1'' 1010, Inr False)
   \<and> acquire_agent_lock (release_agent_lock (acquired_state AgentLock_init ''T1'' 1000) ''T1'' 1010) ''T2'' 1014
     = (acquired_state (release_agent_lock (acquired_state AgentLock_init ''T1'' 1000) ''T1'' 1010) ''T2'' 1014, Inr True)
   \<and> acquire_agent_lock AgentLock_init ''T1'' 1000 = (acquired_state AgentLock_init ''T1'' 1000, Inr True)"
proof (intro conjI)
  show "acquire_agent_lock (acquired_state AgentLock_init ''T1'' 1000) ''T2'' 1100
     = (acquired_state AgentLock_init ''T1'' 1000, Inr False)"
    by (rule acquire_agent_lock_spec [where t = 1000, THEN conjunct1, THEN mp])
       (simp add: acquired_init is_working_def)
  show "acquire_agent_lock (acquired_state AgentLock_init ''T1'' 1000) ''T2'' 1301
     = (acquired_state (acquired_state AgentLock_init ''T1'' 1000) ''T2'' 1301, Inr True)"
    by (rule acquire_agent_lock_spec [where t = 1000, THEN conjunct2, THEN conjunct1, THEN mp])
       (simp add: acquired_init is_working_def)
  show "acquire_agent_lock (release_agent_lock (acquired_state AgentLock_init ''T1'' 1000) ''T1'' 1010) ''T2'' 1011
     = (release_agent_lock (acquired_state AgentLock_init ''T1'' 1000) ''T1'' 1010, Inr False)"
    by (rule acquire_agent_lock_spec [where c = 1010, THEN conjunct2, THEN conjunct2, THEN conjunct1, THEN mp])
       (simp add: acquired_init is_cooling_def release_agent_lock_def)
  show "acquire_agent_lock (release_agent_lock (acquired_state AgentLock_init ''T1'' 1000) ''T1'' 1010) ''T2'' 1014
     = (acquired_state (release_agent_lock (acquired_state AgentLock_init ''T1'' 1000) ''T1'' 1010) ''T2'' 1014, Inr True)"
    by (rule acquire_agent_lock_spec [where c = 1010, THEN conjunct2, THEN conjunct2, THEN conjunct2,
            THEN conjunct1, THEN mp])
       (simp add: acquired_init is_cooling_def release_agent_lock_def)
  show "acquire_agent_lock AgentLock_init ''T1'' 1000 = (acquired_state AgentLock_init ''T1'' 1000, Inr True)"
    by (rule acquire_agent_lock_spec [where t = 0 and c = 0, THEN conjunct2, THEN conjunct2, THEN conjunct2,
            THEN conjunct2, THEN conjunct1, THEN mp])
       (simp add: AgentLock_init_def is_idle_def)
qed

lemma acquire_preserves_inv: "guard_inv s \<Longrightarrow> guard_inv (fst (acquire_agent_lock s task_id now))"
  by (auto simp add: acquire_agent_lock_def guard_inv_def Let_def)

lemma release_preserves_inv: "guard_inv s \<Longrightarrow> guard_inv (release_agent_lock s task_id now)"
  by (simp add: release_agent_lock_def guard_inv_def)

lemma is_agent_working_preserves_inv: "guard_inv s \<Longrightarrow> guard_inv (fst (is_agent_working s now))"
  by (simp add: is_agent_working_def guard_inv_def)

lemma get_status_state: "fst (get_status s now) = s"
  by (simp add: get_status_def)

lemma guard_step_inv: "guard_inv s \<Longrightarrow> guard_inv (guard_step s op)"
  by (cases op)
     (simp_all add: acquire_preserves_inv release_preserves_inv is_agent_working_preserves_inv
        get_status_state)

lemma foldl_guard_inv: "guard_inv s \<Longrightarrow> guard_inv (foldl guard_step s ops)"
  by (induction ops arbitrary: s) (simp_all add: guard_step_inv)

lemma guard_inv_init: "guard_inv AgentLock_init"
  by (simp add: guard_inv_def AgentLock_init_def)

text \<open>
  Claim C8. After every sequence of acquire, release and status operations on a fresh
  lock, the working flag and the cooldown flag are not both set, so exactly one of idle,
  working, cooldown holds; and one more operation keeps it so.
\<close>

theorem guard_exactly_one_state:
  "\<not> (lk_is_agent_working (guard_run ops) \<and> lk_is_cooldown (guard_run ops))
   \<and> count_true [is_idle (guard_run ops), is_working (guard_run ops), is_cooling (guard_run ops)] = 1
   \<and> \<not> (lk_is_agent_working (guard_step (guard_run ops) op)
          \<and> lk_is_cooldown (guard_step (guard_run ops) op))"
proof -
  have inv: "guard_inv (guard_run ops)"
    unfolding guard_run_def by (rule foldl_guard_inv [OF guard_inv_init])
  from guard_step_inv [OF inv] have "guard_inv (guard_step (guard_run ops) op)" .
  with inv show ?thesis
    by (auto simp: guard_inv_def guard_state_defs count_true_def)
qed

lemma guard_run_example:
  "guard_run [Acquire ''T1'' 1000, IsAgentWorking 1001, Release ''T1'' 1010, GetStatus 1011] =
     \<lparr> lk_is_agent_working = False, lk_is_cooldown = True,
       lk_agent_start_time = Some 1000, lk_cooldown_start_time = Some 1010,
       lk_current_task_id = Some ''T1'',
       lk_timeout_seconds = 300, lk_cooldown_seconds = 3 \<rparr>"
  by (simp add: guard_run_def AgentLock_init_def acquire_agent_lock_def is_agent_working_def
        release_agent_lock_def get_status_def elapsed_over_def)

text \<open>
  An instance of C8: acquire, query, release, status leaves the lock in cooldown and in
  no other state.
\<close>

theorem guard_exactly_one_state_witness:
  "is_cooling (guard_run [Acquire ''T1'' 1000, IsAgentWorking 1001, Release ''T1'' 1010, GetStatus 1011])
   \<and> count_true [is_idle (guard_run [Acquire ''T1'' 1000, IsAgentWorking 1001, Release ''T1'' 1010, GetStatus 1011]),
        is_working (guard_run [Acquire ''T1'' 1000, IsAgentWorking 1001, Release ''T1'' 1010, GetStatus 1011]),
        is_cooling (guard_run [Acquire ''T1'' 1000, IsAgentWorking 1001, Release ''T1'' 1010, GetStatus 1011])] = 1"
  using guard_exactly_one_state
          [of "[Acquire ''T1'' 1000, IsAgentWorking 1001, Release ''T1'' 1010, GetStatus 1011]"]
  by (simp add: guard_run_example is_cooling_def)

lemma guard_run_acquire:
  "guard_run [Acquire ''T1'' 1000] =
     \<lparr> lk_is_agent_working = True, lk_is_cooldown = False,
       lk_agent_start_time = Some 1000, lk_cooldown_start_time = None,
       lk_current_task_id = Some ''T1'',
       lk_timeout_seconds = 300, lk_cooldown_seconds = 3 \<rparr>"
  by (simp add: guard_run_def AgentLock_init_def acquire_agent_lock_def)

text \<open>
  Claim C5 as stated fails for \<^verbatim>\<open>get_status\<close>: 1000 seconds after T1 acquired, with
  the timeout of 300 long exceeded, \<^verbatim>\<open>get_status\<close> leaves the lock Working and
  reports it locked.
\<close>

theorem get_status_stale_counterexample:
  "lk_agent_start_time (guard_run [Acquire ''T1'' 1000]) = Some 1000
   \<and> 2000 - 1000 > lk_timeout_seconds (guard_run [Acquire ''T1'' 1000])
   \<and> fst (get_status (guard_run [Acquire ''T1'' 1000]) 2000) = guard_run [Acquire ''T1'' 1000]
   \<and> is_working (fst (get_status (guard_run [Acquire ''T1'' 1000]) 2000))
   \<and> st_is_locked (snd (get_status (guard_run [Acquire ''T1'' 1000]) 2000))
   \<and> st_is_agent_working (snd (get_status (guard_run [Acquire ''T1'' 1000]) 2000))"
  by (simp add: guard_run_acquire get_status_def is_working_def)

lemma is_agent_working_False_iff:
  "\<not> lk_is_agent_working s \<or> \<not> lk_is_cooldown s \<Longrightarrow>
   snd (is_agent_working s now) \<longleftrightarrow> acquire_blocked s now"
  by (auto simp add: is_agent_working_def acquire_blocked_def)

lemma acquire_blocked_False:
  "\<not> lk_is_agent_working s \<or> \<not> lk_is_cooldown s \<Longrightarrow>
   lk_is_cooldown s \<longrightarrow> lk_cooldown_start_time s \<noteq> None \<Longrightarrow>
   acquire_blocked s now \<Longrightarrow> snd (acquire_agent_lock s task_id now) = Inr False"
  by (auto simp add: acquire_agent_lock_def acquire_blocked_def Let_def)

text \<open>
  Claim C5, amended. \<^verbatim>\<open>is_agent_working\<close> expires a stale Working state and a stale
  Cooldown state; when it answers "not busy" the lock is idle afterwards, when it answers
  "busy" the lock is unchanged; and it answers "busy" exactly when
  \<^verbatim>\<open>acquire_agent_lock\<close> at the same instant would refuse, so both use the same timeout
  rules. \<^verbatim>\<open>get_status\<close> expires nothing: it returns the stored flags and leaves the
  state as it is.
\<close>

theorem is_agent_working_expires:
  "(lk_is_agent_working s \<and> lk_agent_start_time s = Some t \<and> t \<noteq> 0 \<and> now - t > lk_timeout_seconds s
      \<longrightarrow> is_agent_working s now =
            (s\<lparr> lk_is_agent_working := False, lk_is_cooldown := False, lk_current_task_id := None \<rparr>, False))
   \<and> (is_cooling s \<and> lk_cooldown_start_time s = Some c \<and> c \<noteq> 0 \<and> now - c > lk_cooldown_seconds s
      \<longrightarrow> is_agent_working s now =
            (s\<lparr> lk_is_cooldown := False, lk_cooldown_start_time := None, lk_current_task_id := None \<rparr>, False))
   \<and> (\<not> (lk_is_agent_working s \<and> lk_is_cooldown s) \<and> \<not> snd (is_agent_working s now)
      \<longrightarrow> is_idle (fst (is_agent_working s now)))
   \<and> (snd (is_agent_working s now) \<longrightarrow> fst (is_agent_working s now) = s)
   \<and> (\<not> (lk_is_agent_working s \<and> lk_is_cooldown s)
       \<and> (lk_is_cooldown s \<longrightarrow> lk_cooldown_start_time s \<noteq> None)
      \<longrightarrow> (snd (is_agent_working s now) \<longleftrightarrow> snd (acquire_agent_lock s task_id now) = Inr False))
   \<and> fst (get_status s now) = s
   \<and> st_is_locked (snd (get_status s now)) = (lk_is_agent_working s \<or> lk_is_cooldown s)
   \<and> st_is_agent_working (snd (get_status s now)) = lk_is_agent_working s
   \<and> st_is_cooldown (snd (get_status s now)) = lk_is_cooldown s"
proof (intro conjI impI)
  assume "lk_is_agent_working s \<and> lk_agent_start_time s = Some t \<and> t \<noteq> 0 \<and> now - t > lk_timeout_seconds s"
  then show "is_agent_working s now =
            (s\<lparr> lk_is_agent_working := False, lk_is_cooldown := False, lk_current_task_id := None \<rparr>, False)"
    by (simp add: is_agent_working_def elapsed_over_def)
next
  assume "is_cooling s \<and> lk_cooldown_start_time s = Some c \<and> c \<noteq> 0 \<and> now - c > lk_cooldown_seconds s"
  then show "is_agent_working s now =
            (s\<lparr> lk_is_cooldown := False, lk_cooldown_start_time := None, lk_current_task_id := None \<rparr>, False)"
    by (simp add: is_agent_working_def elapsed_over_def is_cooling_def)
next
  assume "\<not> (lk_is_agent_working s \<and> lk_is_cooldown s) \<and> \<not> snd (is_agent_working s now)"
  then show "is_idle (fst (is_agent_working s now))"
    by (auto simp add: is_agent_working_def is_idle_def split: if_splits)
next
  assume "snd (is_agent_working s now)"
  then show "fst (is_agent_working s now) = s"
    by (auto simp add: is_agent_working_def split: if_splits)
next
  assume a: "\<not> (lk_is_agent_working s \<and> lk_is_cooldown s)
       \<and> (lk_is_cooldown s \<longrightarrow> lk_cooldown_start_time s \<noteq> None)"
  show "snd (is_agent_working s now) \<longleftrightarrow> snd (acquire_agent_lock s task_id now) = Inr False"
  proof (cases "acquire_blocked s now")
    case True
    with a show ?thesis
      using is_agent_working_False_iff [of s now] acquire_blocked_False [of s now task_id] by simp
  next
    case False
    with a show ?thesis
      using is_agent_working_False_iff [of s now] acquire_not_blocked [of s now task_id] by simp
  qed
qed (simp_all add: get_status_def)

text \<open>
  Instances of the amended C5 on the lock with the default limits.
\<close>

theorem is_agent_working_expires_witness:
  "is_agent_working (acquired_state AgentLock_init ''T1'' 1000) 2000 =
     ((acquired_state AgentLock_init ''T1'' 1000)
        \<lparr> lk_is_agent_working := False, lk_is_cooldown := False, lk_current_task_id := None \<rparr>, False)
   \<and> is_agent_working (release_agent_lock (acquired_state AgentLock_init ''T1'' 1000) ''T1'' 1010) 1014 =
     ((release_agent_lock (acquired_state AgentLock_init ''T1'' 1000) ''T1'' 1010)
        \<lparr> lk_is_cooldown := False, lk_cooldown_start_time := None, lk_current_task_id := None \<rparr>, False)
   \<and> is_idle (fst (is_agent_working (acquired_state AgentLock_init ''T1'' 1000) 2000))
   \<and> fst (is_agent_working (acquired_state AgentLock_init ''T1'' 1000) 1100)
       = acquired_state AgentLock_init ''T1'' 1000
   \<and> snd (is_agent_working (acquired_state AgentLock_init ''T1'' 1000) 1100)
   \<and> snd (acquire_agent_lock (acquired_state AgentLock_init ''T1'' 1000) ''T2'' 1100) = Inr False"
proof (intro conjI)
  have st: "acquired_state AgentLock_init ''T1'' 1000 =
     \<lparr> lk_is_agent_working = True, lk_is_cooldown = False,
       lk_agent_start_time = Some 1000, lk_cooldown_start_time = None,
       lk_current_task_id = Some ''T1'',
       lk_timeout_seconds = 300, lk_cooldown_seconds = 3 \<rparr>"
    by (simp add: acquired_state_def AgentLock_init_def)
  show e1: "is_agent_working (acquired_state AgentLock_init ''T1'' 1000) 2000 =
     ((acquired_state AgentLock_init ''T1'' 1000)
        \<lparr> lk_is_agent_working := False, lk_is_cooldown := False, lk_current_task_id := None \<rparr>, False)"
    by (rule is_agent_working_expires [where t = 1000, THEN conjunct1, THEN mp]) (simp add: st)
  show "is_agent_working (release_agent_lock (acquired_state AgentLock_init ''T1'' 1000) ''T1'' 1010) 1014 =
     ((release_agent_lock (acquired_state AgentLock_init ''T1'' 1000) ''T1'' 1010)
        \<lparr> lk_is_cooldown := False, lk_cooldown_start_time := None, lk_current_task_id := None \<rparr>, False)"
    by (rule is_agent_working_expires [where c = 1010, THEN conjunct2, THEN conjunct1, THEN mp])
       (simp add: st release_agent_lock_def is_cooling_def)
  show "is_idle (fst (is_agent_working (acquired_state AgentLock_init ''T1'' 1000) 2000))"
    by (rule is_agent_working_expires [THEN conjunct2, THEN conjunct2, THEN conjunct1, THEN mp])
       (insert e1, simp add: st)
  have busy: "snd (is_agent_working (acquired_state AgentLock_init ''T1'' 1000) 1100)"
    by (simp add: st is_agent_working_def elapsed_over_def)
  then show "snd (is_agent_working (acquired_state AgentLock_init ''T1'' 1000) 1100)" .
  show "fst (is_agent_working (acquired_state AgentLock_init ''T1'' 1000) 1100)
       = acquired_state AgentLock_init ''T1'' 1000"
    by (rule is_agent_working_expires [THEN conjunct2, THEN conjunct2, THEN conjunct2, THEN conjunct1, THEN mp])
       (rule busy)
  have "snd (is_agent_working (acquired_state AgentLock_init ''T1'' 1000) 1100) \<longleftrightarrow>
        snd (acquire_agent_lock (acquired_state AgentLock_init ''T1'' 1000) ''T2'' 1100) = Inr False"
    by (rule is_agent_working_expires [THEN conjunct2, THEN conjunct2, THEN conjunct2, THEN conjunct2,
          THEN conjunct1, THEN mp]) (simp add: st)
  with busy show "snd (acquire_agent_lock (acquired_state AgentLock_init ''T1'' 1000) ''T2'' 1100) = Inr False"
    by simp
qed

text \<open>
  The start times that the expiry cases above ask for are there in every state the
  operations reach, as long as the clock never reads \<open>0.0\<close>; in such a state
  \<^verbatim>\<open>acquire_agent_lock\<close> does not raise.
\<close>

lemma times_inv_step:
  assumes "times_recorded s" "op_time op \<noteq> 0"
  shows "times_recorded (guard_step s op)"
proof (cases op)
  case (Acquire task_id now)
  with assms show ?thesis
    by (auto simp: times_recorded_def acquire_agent_lock_def Let_def truthy_time_def)
next
  case (Release task_id now)
  with assms show ?thesis
    by (auto simp: times_recorded_def release_agent_lock_def truthy_time_def)
next
  case (IsAgentWorking now)
  with assms show ?thesis
    by (auto simp: times_recorded_def is_agent_working_def truthy_time_def)
next
  case (GetStatus now)
  with assms show ?thesis
    by (simp add: get_status_def)
qed

lemma times_inv_foldl:
  "times_recorded s \<Longrightarrow> \<forall>op \<in> set ops. op_time op \<noteq> 0 \<Longrightarrow>
   times_recorded (foldl guard_step s ops)"
  by (induction ops arbitrary: s) (simp_all add: times_inv_step)

lemma guard_run_times_recorded:
  "\<forall>op \<in> set ops. op_time op \<noteq> 0 \<Longrightarrow> times_recorded (guard_run ops)"
  unfolding guard_run_def
  by (rule times_inv_foldl) (simp_all add: times_recorded_def AgentLock_init_def)

lemma guard_run_acquire_never_raises:
  assumes "\<forall>op \<in> set ops. op_time op \<noteq> 0"
  shows "snd (acquire_agent_lock (guard_run ops) task_id now) \<noteq> Inl e"
  using guard_run_times_recorded [OF assms]
  by (auto simp: times_recorded_def acquire_agent_lock_def Let_def truthy_time_def
      split: option.splits)

section \<open>Properties of the free intervals\<close>

text \<open>The two loops compute what the two recursions compute.\<close>

lemma foldl_merge_step:
  "acc \<noteq> [] \<Longrightarrow> foldl merge_step acc xs = butlast acc @ merge_from (last acc) xs"
proof (induction xs arbitrary: acc)
  case Nil
  then show ?case by simp
next
  case (Cons x xs)
  show ?case
  proof (cases "fst x \<le> snd (last acc)")
    case True
    with Cons.prems have "merge_step acc x = butlast acc @ [(fst (last acc), max (snd (last acc)) (snd x))]"
      by (simp add: merge_step_def Let_def)
    with Cons.IH [of "merge_step acc x"] True show ?thesis by simp
  next
    case False
    with Cons.prems have "merge_step acc x = acc @ [x]"
      by (simp add: merge_step_def Let_def)
    with Cons.IH [of "merge_step acc x"] False Cons.prems show ?thesis by simp
  qed
qed

lemma merge_busy_eq:
  "merge_busy bs = (case sort bs of [] \<Rightarrow> [] | x # xs \<Rightarrow> merge_from x xs)"
proof (cases "sort bs")
  case Nil
  then show ?thesis by (simp add: merge_busy_def)
next
  case (Cons x xs)
  have "foldl merge_step [] (x # xs) = foldl merge_step [x] xs"
    by (simp add: merge_step_def)
  with Cons show ?thesis
    by (simp add: merge_busy_def foldl_merge_step)
qed

lemma foldl_free_step:
  "(case foldl free_step (F, c) bs of (F', c') \<Rightarrow> if c' < e then F' @ [(c', e)] else F')
     = F @ subtract_spec e c bs"
  by (induction bs arbitrary: F c) (simp_all add: free_step_def)

lemma get_free_intervals_eq:
  "get_free_intervals s e bs = subtract_spec e s (merge_busy bs)"
  using foldl_free_step [where F = "[]" and c = s and bs = "merge_busy bs" and e = e]
  by (simp add: get_free_intervals_def Let_def)

lemma cover_simps [simp]:
  "cover [] = {}"
  "cover (x # xs) = ivl x \<union> cover xs"
  "cover (xs @ ys) = cover xs \<union> cover ys"
  by (auto simp: cover_def)

lemma merge_from_fst:
  "m \<in> set (merge_from cur xs) \<Longrightarrow> sorted (map fst (cur # xs)) \<Longrightarrow> fst cur \<le> fst m"
proof (induction cur xs rule: merge_from.induct)
  case (1 cur)
  then show ?case by simp
next
  case (2 cur x xs)
  show ?case
  proof (cases "fst x \<le> snd cur")
    case True
    with 2 show ?thesis by auto
  next
    case False
    with 2 show ?thesis by fastforce
  qed
qed

lemma merge_from_wf:
  "m \<in> set (merge_from cur xs) \<Longrightarrow> \<forall>x \<in> set (cur # xs). fst x \<le> snd x \<Longrightarrow> fst m \<le> snd m"
  by (induction cur xs rule: merge_from.induct) (auto split: if_splits)

lemma merge_from_fst_mem:
  "m \<in> set (merge_from cur xs) \<Longrightarrow> fst m \<in> fst ` set (cur # xs)"
  by (induction cur xs rule: merge_from.induct) (auto split: if_splits)

lemma merge_from_snd_mem:
  "m \<in> set (merge_from cur xs) \<Longrightarrow> snd m \<in> snd ` set (cur # xs)"
  by (induction cur xs rule: merge_from.induct) (auto split: if_splits simp: max_def)

lemma merge_from_separated:
  "sorted (map fst (cur # xs)) \<Longrightarrow> \<forall>x \<in> set (cur # xs). fst x \<le> snd x \<Longrightarrow>
   sorted_wrt (\<lambda>a b. snd a < fst b) (merge_from cur xs)"
proof (induction cur xs rule: merge_from.induct)
  case (1 cur)
  then show ?case by simp
next
  case (2 cur x xs)
  show ?case
  proof (cases "fst x \<le> snd cur")
    case True
    with 2 show ?thesis by auto
  next
    case False
    have "\<forall>m \<in> set (merge_from x xs). snd cur < fst m"
    proof
      fix m assume "m \<in> set (merge_from x xs)"
      with "2.prems" have "fst x \<le> fst m" by (intro merge_from_fst) auto
      with False show "snd cur < fst m" by simp
    qed
    with 2 False show ?thesis by auto
  qed
qed

lemma merge_from_cover:
  "sorted (map fst (cur # xs)) \<Longrightarrow> cover (merge_from cur xs) = ivl cur \<union> cover xs"
proof (induction cur xs rule: merge_from.induct)
  case (1 cur)
  then show ?case by simp
next
  case (2 cur x xs)
  show ?case
  proof (cases "fst x \<le> snd cur")
    case True
    have "ivl (fst cur, max (snd cur) (snd x)) = ivl cur \<union> ivl x"
      using True "2.prems" by (auto simp: ivl_def)
    with 2 True show ?thesis by auto
  next
    case False
    with 2 show ?thesis by auto
  qed
qed

lemma sorted_map_fst: "sorted (xs :: interval list) \<Longrightarrow> sorted (map fst xs)"
  by (induction xs) (auto simp: less_eq_prod_def)

lemma merge_busy_cases:
  obtains "set bs = {}" "merge_busy bs = []"
  | x xs where "sort bs = x # xs" "merge_busy bs = merge_from x xs"
  by (cases "sort bs") (auto simp: merge_busy_eq dest: arg_cong [where f = set])

lemma merge_busy_separated:
  assumes "\<forall>b \<in> set bs. fst b \<le> snd b"
  shows "sorted_wrt (\<lambda>a b. snd a < fst b) (merge_busy bs)"
proof (cases bs rule: merge_busy_cases)
  case 1
  then show ?thesis by simp
next
  case (2 x xs)
  have "sorted (map fst (sort bs))" by (rule sorted_map_fst) simp
  moreover have "set (x # xs) = set bs" using 2(1) [symmetric] by simp
  ultimately show ?thesis
    using assms 2 merge_from_separated [of x xs] by simp
qed

lemma merge_busy_cover: "cover (merge_busy bs) = cover bs"
proof (cases bs rule: merge_busy_cases)
  case 1
  then show ?thesis by (simp add: cover_def)
next
  case (2 x xs)
  have "sorted (map fst (sort bs))" by (rule sorted_map_fst) simp
  moreover have "cover (x # xs) = cover bs"
    using 2(1) [symmetric] by (simp add: cover_def del: cover_simps)
  ultimately show ?thesis
    using 2 merge_from_cover [of x xs] by simp
qed

lemma merge_busy_fst_mem: "m \<in> set (merge_busy bs) \<Longrightarrow> fst m \<in> fst ` set bs"
proof (cases bs rule: merge_busy_cases)
  case 1
  assume "m \<in> set (merge_busy bs)"
  with 1 show ?thesis by simp
next
  case (2 x xs)
  assume "m \<in> set (merge_busy bs)"
  moreover have "set (x # xs) = set bs" using 2(1) [symmetric] by simp
  ultimately show ?thesis using 2 merge_from_fst_mem [of m x xs] by simp
qed

lemma merge_busy_snd_mem: "m \<in> set (merge_busy bs) \<Longrightarrow> snd m \<in> snd ` set bs"
proof (cases bs rule: merge_busy_cases)
  case 1
  assume "m \<in> set (merge_busy bs)"
  with 1 show ?thesis by simp
next
  case (2 x xs)
  assume "m \<in> set (merge_busy bs)"
  moreover have "set (x # xs) = set bs" using 2(1) [symmetric] by simp
  ultimately show ?thesis using 2 merge_from_snd_mem [of m x xs] by simp
qed

lemma merge_busy_sorted_fst:
  assumes "\<forall>b \<in> set bs. fst b \<le> snd b"
  shows "sorted (map fst (merge_busy bs))"
proof -
  have wf: "\<forall>m \<in> set (merge_busy bs). fst m \<le> snd m"
  proof (cases bs rule: merge_busy_cases)
    case 1
    then show ?thesis by simp
  next
    case (2 x xs)
    have "set (x # xs) = set bs" using 2(1) [symmetric] by simp
    with assms 2 show ?thesis using merge_from_wf [of _ x xs] by auto
  qed
  have "sorted_wrt (\<lambda>a b. fst a \<le> fst b) (merge_busy bs)"
    using merge_busy_separated [OF assms] wf
    by (rule_tac sorted_wrt_mono_rel [where P = "\<lambda>a b. snd a < fst b"]) auto
  then show ?thesis by (simp add: sorted_map)
qed

lemma merge_busy_wf:
  "\<forall>b \<in> set bs. fst b \<le> snd b \<Longrightarrow> m \<in> set (merge_busy bs) \<Longrightarrow> fst m \<le> snd m"
proof (cases bs rule: merge_busy_cases)
  case 1
  assume "m \<in> set (merge_busy bs)"
  with 1 show ?thesis by simp
next
  case (2 x xs)
  assume a: "\<forall>b \<in> set bs. fst b \<le> snd b" "m \<in> set (merge_busy bs)"
  have "set (x # xs) = set bs" using 2(1) [symmetric] by simp
  with a 2 show ?thesis using merge_from_wf [of m x xs] by auto
qed

lemma subtract_cover:
  "sorted (map fst bs) \<Longrightarrow> \<forall>b \<in> set bs. fst b \<le> e \<Longrightarrow>
   cover (subtract_spec e c bs) = {c ..< e} - cover bs"
proof (induction bs arbitrary: c)
  case Nil
  then show ?case by (auto simp: ivl_def)
next
  case (Cons b bs)
  have IH: "cover (subtract_spec e (max c (snd b)) bs) = {max c (snd b) ..< e} - cover bs"
    using Cons by simp
  have later: "\<forall>t \<in> cover bs. fst b \<le> t"
    using Cons.prems(1) by (fastforce simp: cover_def ivl_def)
  have be: "fst b \<le> e" using Cons.prems(2) by simp
  show ?case
    using later be by (auto simp: IH ivl_def)
qed

lemma subtract_bounds:
  "f \<in> set (subtract_spec e c bs) \<Longrightarrow> \<forall>b \<in> set bs. fst b \<le> e \<Longrightarrow>
   c \<le> fst f \<and> fst f < snd f \<and> snd f \<le> e"
  by (induction bs arbitrary: c) (fastforce split: if_splits)+

lemma subtract_ordered:
  "\<forall>b \<in> set bs. fst b \<le> snd b \<and> fst b \<le> e \<Longrightarrow>
   sorted_wrt (\<lambda>a b. snd a \<le> fst b) (subtract_spec e c bs)"
proof (induction bs arbitrary: c)
  case Nil
  then show ?case by simp
next
  case (Cons b bs)
  have "\<forall>f \<in> set (subtract_spec e (max c (snd b)) bs). fst b \<le> fst f"
  proof
    fix f assume "f \<in> set (subtract_spec e (max c (snd b)) bs)"
    with Cons.prems have "max c (snd b) \<le> fst f"
      using subtract_bounds [of f e "max c (snd b)" bs] by auto
    with Cons.prems show "fst b \<le> fst f" by simp
  qed
  with Cons show ?case by (simp add: sorted_wrt_append)
qed

lemma disjoint_intervals_append:
  "disjoint_intervals (xs @ ys) \<longleftrightarrow>
     disjoint_intervals xs \<and> disjoint_intervals ys \<and> cover xs \<inter> cover ys = {}"
  by (induction xs) (auto simp: cover_def)

lemma separated_disjoint:
  "sorted_wrt (\<lambda>a b. snd a \<le> fst b) xs \<Longrightarrow> disjoint_intervals xs"
  by (induction xs) (auto simp: ivl_def)

lemma merge_busy_disjoint:
  assumes "\<forall>b \<in> set bs. fst b \<le> snd b"
  shows "disjoint_intervals (merge_busy bs)"
proof -
  have "sorted_wrt (\<lambda>a b. snd a \<le> fst b) (merge_busy bs)"
    using merge_busy_separated [OF assms]
    by (rule_tac sorted_wrt_mono_rel [where P = "\<lambda>a b. snd a < fst b"]) auto
  then show ?thesis by (rule separated_disjoint)
qed

text \<open>
  Claim C3 as stated fails when a busy interval reaches out of the queried range: for
  the range from 8 to 12 and one busy interval from 7 to 9, the free interval is
  \<open>(9, 12)\<close> and the merged busy interval \<open>(7, 9)\<close>; together they cover the point 7,
  which is not in the range.
\<close>

theorem get_free_intervals_tiling_counterexample:
  "get_free_intervals 8 12 [(7, 9)] = [(9, 12)] \<and> merge_busy [(7, 9)] = [(7, 9)]
   \<and> cover (get_free_intervals 8 12 [(7, 9)]) \<union> cover (merge_busy [(7, 9)]) \<noteq> {8 ..< 12}"
proof -
  have m: "merge_busy [(7, 9)] = [(7, 9)]"
    by (simp add: merge_busy_def merge_step_def)
  have f: "get_free_intervals 8 12 [(7, 9)] = [(9, 12)]"
    by (simp add: get_free_intervals_def m free_step_def)
  have "(7::int) \<in> cover [(9, 12)] \<union> cover [(7, 9)]" by (simp add: ivl_def)
  moreover have "(7::int) \<notin> {8 ..< 12}" by simp
  ultimately have "cover [(9, 12)] \<union> cover [(7, 9)] \<noteq> {8 ..< 12 :: int}" by blast
  with m f show ?thesis by simp
qed

text \<open>
  Claim C3, amended. For busy intervals that end no earlier than they start and start
  no later than the end of the range: the subtraction is the walk of the specification
  over the merged intervals; merging keeps the covered points; no two of the free and
  merged intervals share a point; the free intervals together with the part of the
  merged busy intervals inside the range cover exactly the range; and when every busy
  interval lies inside the range, free and merged busy intervals tile it exactly.
\<close>

theorem get_free_intervals_tiling:
  assumes "\<forall>b \<in> set busy. fst b \<le> snd b \<and> fst b \<le> e"
  shows "get_free_intervals s e busy = subtract_spec e s (merge_busy busy)
     \<and> cover (merge_busy busy) = cover busy
     \<and> disjoint_intervals (get_free_intervals s e busy @ merge_busy busy)
     \<and> cover (get_free_intervals s e busy) \<union> (cover (merge_busy busy) \<inter> {s ..< e}) = {s ..< e}
     \<and> ((\<forall>b \<in> set busy. s \<le> fst b \<and> snd b \<le> e) \<longrightarrow>
          cover (get_free_intervals s e busy) \<union> cover (merge_busy busy) = {s ..< e})"
proof -
  let ?m = "merge_busy busy"
  let ?f = "get_free_intervals s e busy"
  have wf: "\<forall>b \<in> set busy. fst b \<le> snd b" using assms by simp
  have eq: "?f = subtract_spec e s ?m" by (rule get_free_intervals_eq)
  have m_le: "\<forall>m \<in> set ?m. fst m \<le> snd m \<and> fst m \<le> e"
  proof
    fix m assume m: "m \<in> set ?m"
    from merge_busy_fst_mem [OF m] assms have "fst m \<le> e" by auto
    with merge_busy_wf [OF wf m] show "fst m \<le> snd m \<and> fst m \<le> e" by simp
  qed
  have cov: "cover ?f = {s ..< e} - cover ?m"
    unfolding eq using merge_busy_sorted_fst [OF wf] m_le by (intro subtract_cover) auto
  have d1: "disjoint_intervals ?f"
    unfolding eq using m_le by (intro separated_disjoint subtract_ordered) auto
  have d: "disjoint_intervals (?f @ ?m)"
    unfolding disjoint_intervals_append using d1 merge_busy_disjoint [OF wf] cov by auto
  have tile: "cover ?f \<union> (cover ?m \<inter> {s ..< e}) = {s ..< e}"
    using cov by auto
  have inside: "cover ?f \<union> cover ?m = {s ..< e}" if "\<forall>b \<in> set busy. s \<le> fst b \<and> snd b \<le> e"
  proof -
    have "cover busy \<subseteq> {s ..< e}" using that by (fastforce simp: cover_def ivl_def)
    then have "cover ?m \<subseteq> {s ..< e}" by (simp add: merge_busy_cover)
    with cov show ?thesis by auto
  qed
  from eq merge_busy_cover d tile inside show ?thesis by blast
qed

text \<open>
  The scenario of the specification in minutes of the day: busy 09:30-11:00 and
  09:00-10:00 merge to 09:00-11:00, and the range 08:00-12:00 has the free intervals
  08:00-09:00 and 11:00-12:00.
\<close>

theorem get_free_intervals_tiling_witness:
  "get_free_intervals 480 720 [(570, 660), (540, 600)] = [(480, 540), (660, 720)]
   \<and> merge_busy [(570, 660), (540, 600)] = [(540, 660)]
   \<and> cover (get_free_intervals 480 720 [(570, 660), (540, 600)])
        \<union> cover (merge_busy [(570, 660), (540, 600)]) = {480 ..< 720}
   \<and> disjoint_intervals
        (get_free_intervals 480 720 [(570, 660), (540, 600)] @ merge_busy [(570, 660), (540, 600)])"
proof -
  have m: "merge_busy [(570, 660), (540, 600)] = [(540, 660)]"
    by (simp add: merge_busy_def merge_step_def less_eq_prod_def)
  have f: "get_free_intervals 480 720 [(570, 660), (540, 600)] = [(480, 540), (660, 720)]"
    by (simp add: get_free_intervals_def m free_step_def)
  have h: "\<forall>b \<in> set [(570, 660), (540, 600 :: int)]. fst b \<le> snd b \<and> fst b \<le> (720 :: int)"
    by simp
  have h2: "\<forall>b \<in> set [(570, 660), (540, 600 :: int)]. (480 :: int) \<le> fst b \<and> snd b \<le> (720 :: int)"
    by simp
  from get_free_intervals_tiling [OF h, of 480] h2 m f show ?thesis by blast
qed

section \<open>Properties of the Activity Hours filter\<close>




















lemma future_intervals_elem:
  "x \<in> set (future_intervals now free) \<Longrightarrow> now \<le> fst x \<and> fst x < snd x"
  by (auto simp: future_intervals_def Let_def split: if_splits)







section \<open>Properties of the change analysis\<close>

lemma set_minus_empty: "set xs \<subseteq> set ys \<Longrightarrow> set_minus xs ys = []"
  by (auto simp: set_minus_def filter_empty_conv)

lemma add_note_nothing: "add_note c [] [] = c"
  by (simp add: add_note_def)

lemma describe_labels_same_set:
  assumes "set (labels_of old_value) = set (labels_of new_value)"
  shows "describe_change c ''labels'' d old_value new_value = c"
  using assms by (simp add: describe_change_def set_minus_empty add_note_nothing Let_def)

lemma add_note_tags:
  "significant_changes (add_note c summary tags) = significant_changes c @ tags"
  by (simp add: add_note_def)

lemma describe_change_other_tag:
  assumes "field \<noteq> ''labels''"
  shows "''labels_changed'' \<in> set (significant_changes (describe_change c field d old_value new_value))
         \<longleftrightarrow> ''labels_changed'' \<in> set (significant_changes c)"
  using assms by (simp add: describe_change_def add_note_tags)

lemma analyze_field_tag:
  assumes "set (labels_of (get_field old_data ''labels'')) = set (labels_of (get_field current_data ''labels''))"
  shows "''labels_changed'' \<in> set (significant_changes (analyze_field current_data old_data c fd))
         \<longleftrightarrow> ''labels_changed'' \<in> set (significant_changes c)"
proof (cases fd)
  case (Pair field d)
  show ?thesis
  proof (cases "field = ''labels''")
    case True
    with Pair assms show ?thesis
      by (simp add: analyze_field_def Let_def describe_labels_same_set)
  next
    case False
    with Pair show ?thesis
      by (simp add: analyze_field_def Let_def describe_change_other_tag)
  qed
qed

lemma foldl_analyze_tag:
  assumes "set (labels_of (get_field old_data ''labels'')) = set (labels_of (get_field current_data ''labels''))"
  shows "''labels_changed'' \<in> set (significant_changes (foldl (analyze_field current_data old_data) c fds))
         \<longleftrightarrow> ''labels_changed'' \<in> set (significant_changes c)"
  by (induction fds arbitrary: c) (simp_all add: analyze_field_tag [OF assms])

lemma get_field_labels_update:
  "field \<noteq> ''labels'' \<Longrightarrow> get_field (d\<lparr> t_labels := x \<rparr>) field = get_field d field"
  by (simp add: get_field_def)

lemma analyze_field_only_labels:
  assumes "field \<noteq> ''labels''"
  shows "analyze_field (d\<lparr> t_labels := x \<rparr>) d c (field, desc) = c"
  using assms by (simp add: analyze_field_def get_field_labels_update)

lemma analyze_field_labels_reordered:
  assumes "t_labels d = Some ls" "set ls = set ls'"
  shows "analyze_field (d\<lparr> t_labels := Some ls' \<rparr>) d c (''labels'', desc) =
           (if ls = ls' then c
            else c\<lparr> has_changes := True, fields_changed := fields_changed c @ [''labels''],
                    change_details := change_details c @ [(''labels'', VLabels ls, VLabels ls', desc)] \<rparr>)"
  using assms
  by (simp add: analyze_field_def get_field_def opt_value_def Let_def describe_labels_same_set labels_of_def)

text \<open>
  Claim C9. When the labels of the old and of the current snapshot are equal as sets,
  the analysis adds no tag \<^verbatim>\<open>labels_changed\<close>, whatever the other fields are; and when
  the snapshots differ in nothing but the order of the labels, there are no tags and no
  lines in the summary at all, although the field counts as changed when the two lists
  are not equal.
\<close>

theorem labels_reordered_no_change_tag:
  assumes "t_labels old_data = Some ls" "set ls = set ls'"
  shows "(t_labels current_data = Some ls' \<longrightarrow>
            ''labels_changed'' \<notin> set (significant_changes (analyze_task_changes current_data old_data)))
     \<and> (current_data = old_data\<lparr> t_labels := Some ls' \<rparr> \<longrightarrow>
            significant_changes (analyze_task_changes current_data old_data) = []
          \<and> change_summary (analyze_task_changes current_data old_data) = []
          \<and> has_changes (analyze_task_changes current_data old_data) = (ls \<noteq> ls'))"
proof (intro conjI impI)
  assume "t_labels current_data = Some ls'"
  with assms have "set (labels_of (get_field old_data ''labels''))
      = set (labels_of (get_field current_data ''labels''))"
    by (simp add: get_field_def opt_value_def labels_of_def)
  from foldl_analyze_tag [OF this, of no_changes important_fields]
  show "''labels_changed'' \<notin> set (significant_changes (analyze_task_changes current_data old_data))"
    by (simp add: analyze_task_changes_def no_changes_def)
next
  assume cur: "current_data = old_data\<lparr> t_labels := Some ls' \<rparr>"
  have res: "analyze_task_changes current_data old_data =
          (if ls = ls' then no_changes
           else no_changes\<lparr> has_changes := True, fields_changed := [''labels''],
                   change_details := [(''labels'', VLabels ls, VLabels ls', ''Labels'')] \<rparr>)"
    unfolding analyze_task_changes_def important_fields_def cur
    by (simp add: analyze_field_only_labels analyze_field_labels_reordered [OF assms] no_changes_def)
  show "significant_changes (analyze_task_changes current_data old_data) = []"
       "change_summary (analyze_task_changes current_data old_data) = []"
       "has_changes (analyze_task_changes current_data old_data) = (ls \<noteq> ls')"
    by (simp_all add: res no_changes_def)
qed

text \<open>
  An instance of C9: the labels home, errand against errand, home.
\<close>

theorem labels_reordered_no_change_tag_witness:
  "''labels_changed'' \<notin> set (significant_changes
       (analyze_task_changes (example_item\<lparr> t_labels := Some [''errand'', ''home''] \<rparr>) example_item))
   \<and> change_summary
       (analyze_task_changes (example_item\<lparr> t_labels := Some [''errand'', ''home''] \<rparr>) example_item) = []
   \<and> has_changes
       (analyze_task_changes (example_item\<lparr> t_labels := Some [''errand'', ''home''] \<rparr>) example_item)"
proof -
  have a: "t_labels example_item = Some [''home'', ''errand'']" by (simp add: example_item_def)
  have b: "set [''home'', ''errand''] = set [''errand'', ''home'']" by auto
  from labels_reordered_no_change_tag [OF a b,
         of "example_item\<lparr> t_labels := Some [''errand'', ''home''] \<rparr>"]
  show ?thesis by simp
qed

section \<open>Properties of the handlers and of the router\<close>

lemma describe_change_priority_tag_other:
  assumes "field \<noteq> ''priority''"
  shows "''priority_changed'' \<in> set (significant_changes (describe_change c field d old_value new_value))
         \<longleftrightarrow> ''priority_changed'' \<in> set (significant_changes c)"
  using assms by (simp add: describe_change_def add_note_tags Let_def)

lemma analyze_field_priority_tag_other:
  assumes "field \<noteq> ''priority''"
  shows "''priority_changed'' \<in> set (significant_changes (analyze_field cur old c (field, d)))
         \<longleftrightarrow> ''priority_changed'' \<in> set (significant_changes c)"
  using assms by (simp add: analyze_field_def Let_def describe_change_priority_tag_other)

lemma analyze_field_priority_tag:
  "''priority_changed'' \<in> set (significant_changes (analyze_field cur old c (''priority'', d)))
     \<longleftrightarrow> ''priority_changed'' \<in> set (significant_changes c) \<or> t_priority old \<noteq> t_priority cur"
  by (auto simp add: analyze_field_def Let_def describe_change_def add_note_tags get_field_def
        opt_value_def split: option.splits)

lemma priority_changed_iff:
  "''priority_changed'' \<in> set (significant_changes (analyze_task_changes cur old))
     \<longleftrightarrow> t_priority old \<noteq> t_priority cur"
  unfolding analyze_task_changes_def important_fields_def
  by (simp add: analyze_field_priority_tag_other analyze_field_priority_tag no_changes_def)

lemma add_minutes_lt:
  assumes "now \<le> dt_max"
  shows "(case add_minutes dt m of None \<Rightarrow> False | Some e \<Rightarrow> e < now)
         \<longleftrightarrow> dt + int m * us_per_minute < now"
  using assms by (auto simp: add_minutes_def Let_def)

lemma should_reschedule_iff:
  assumes "env_now_local ev \<le> dt_max"
  shows "fst (should_reschedule ev task old_item pc) \<longleftrightarrow> pc \<or> overdue_spec ev task"
proof (cases "due_moment ev task")
  case None
  then show ?thesis by (simp add: should_reschedule_def overdue_spec_def)
next
  case (Some due)
  show ?thesis
    using add_minutes_lt [OF assms, of due "duration_minutes_of (t_duration task)"] Some
    by (auto simp: should_reschedule_def overdue_spec_def Let_def split: option.splits)
qed

lemma should_reschedule_shape:
  "(\<exists>reason. should_reschedule ev task old_item pc = (True, Some reason))
   \<or> should_reschedule ev task old_item pc = (False, None)"
  by (auto simp: should_reschedule_def Let_def split: option.splits)

lemma reschedule_result_not_needed:
  "hr_result (reschedule ev g td summary reason) \<noteq> NoReschedulingNeeded s b"
  by (auto simp: reschedule_def reschedule_body_def Let_def split: prod.splits sum.splits option.splits if_splits)

text \<open>
  Claim C2, amended. For an update of a task that carries no manual-scheduled label,
  has an old item and at least one changed field (and a clock that reads a datetime):
  the handler enters the rescheduling branch exactly when the priority changed or the
  task is overdue in the sense of \<open>overdue_spec\<close>; otherwise it returns "no
  rescheduling needed", logs the event as ignored, leaves the lock alone and does not
  call the agent. The rescheduling branch never returns "no rescheduling needed".
\<close>

theorem update_reschedule_decision:
  assumes "\<not> has_manual_scheduled_label (t_item td)" "t_old_item td = Some old_item"
    "has_changes (analyze_task_changes (t_item td) old_item)" "env_now_local ev \<le> dt_max"
  shows "(t_priority old_item \<noteq> t_priority (t_item td) \<or> overdue_spec ev (t_item td) \<longrightarrow>
            (\<exists>reason. handle_task_updated ev g td =
               reschedule ev g td
                 (join ''; '' (change_summary (analyze_task_changes (t_item td) old_item))) reason))
     \<and> (\<not> (t_priority old_item \<noteq> t_priority (t_item td) \<or> overdue_spec ev (t_item td)) \<longrightarrow>
            handle_task_updated ev g td =
              \<lparr> hr_lock = g,
                hr_result = NoReschedulingNeeded
                  (join ''; '' (change_summary (analyze_task_changes (t_item td) old_item))) False,
                hr_log = [(''ignored'', ''no_rescheduling_needed'')], hr_agent_calls = [] \<rparr>)
     \<and> (\<forall>summary reason s b.
            hr_result (reschedule ev g td summary reason) \<noteq> NoReschedulingNeeded s b)"
proof -
  let ?ca = "analyze_task_changes (t_item td) old_item"
  let ?pc = "''priority_changed'' \<in> set (significant_changes ?ca)"
  let ?sr = "should_reschedule ev (t_item td) old_item ?pc"
  have pc: "?pc \<longleftrightarrow> t_priority old_item \<noteq> t_priority (t_item td)"
    by (rule priority_changed_iff)
  have dec: "fst ?sr \<longleftrightarrow> t_priority old_item \<noteq> t_priority (t_item td) \<or> overdue_spec ev (t_item td)"
    using should_reschedule_iff [OF assms(4), of "t_item td" old_item ?pc] pc by simp
  have h: "handle_task_updated ev g td =
      (case ?sr of
         (True, Some reason) \<Rightarrow> reschedule ev g td (join ''; '' (change_summary ?ca)) reason
       | _ \<Rightarrow> \<lparr> hr_lock = g, hr_result = NoReschedulingNeeded (join ''; '' (change_summary ?ca)) ?pc,
               hr_log = [(''ignored'', ''no_rescheduling_needed'')], hr_agent_calls = [] \<rparr>)"
    using assms(1-3) by (simp add: handle_task_updated_def Let_def)
  from should_reschedule_shape [of ev "t_item td" old_item ?pc]
  show ?thesis
  proof
    assume "\<exists>reason. ?sr = (True, Some reason)"
    then obtain reason where r: "?sr = (True, Some reason)" ..
    then have "fst ?sr" by simp
    with dec r h reschedule_result_not_needed show ?thesis by auto
  next
    assume r: "?sr = (False, None)"
    then have "\<not> fst ?sr" by simp
    with dec have no: "\<not> (t_priority old_item \<noteq> t_priority (t_item td) \<or> overdue_spec ev (t_item td))"
      by simp
    then have "\<not> ?pc" using pc by simp
    with r h no reschedule_result_not_needed show ?thesis by auto
  qed
qed

lemma analyze_manual:
  "analyze_task_changes (manual_item\<lparr> t_priority := Some 4 \<rparr>) manual_item =
     \<lparr> has_changes = True, fields_changed = [''priority''],
       change_details = [(''priority'', VInt 1, VInt 4, ''Priority'')],
       change_summary = [''Priority changed: Low '' @ arrow @ '' Urgent''],
       significant_changes = [''priority_changed''] \<rparr>"
  by (simp add: analyze_task_changes_def important_fields_def analyze_field_def get_field_def
        opt_value_def manual_item_def example_item_def no_changes_def describe_change_def
        add_note_def priority_name_def Let_def)

text \<open>
  Claim C2 as stated fails for a task with the label Manual Scheduled: the update has an
  old item and a changed priority, and the handler returns at its first check without
  any attempt at rescheduling.
\<close>

theorem manual_update_counterexample:
  "t_old_item manual_update = Some manual_item
   \<and> has_changes (analyze_task_changes (t_item manual_update) manual_item)
   \<and> t_priority manual_item \<noteq> t_priority (t_item manual_update)
   \<and> handle_task_updated example_env AgentLock_init manual_update =
        \<lparr> hr_lock = AgentLock_init, hr_result = ManuallyScheduled,
          hr_log = [(''skipped'', ''manual_scheduled_label'')], hr_agent_calls = [] \<rparr>"
proof -
  have m: "has_manual_scheduled_label (t_item manual_update)"
    by (simp add: manual_update_def manual_item_def has_manual_scheduled_label_def
          manual_scheduled_variants_def)
  have h: "handle_task_updated example_env AgentLock_init manual_update =
        \<lparr> hr_lock = AgentLock_init, hr_result = ManuallyScheduled,
          hr_log = [(''skipped'', ''manual_scheduled_label'')], hr_agent_calls = [] \<rparr>"
    using m by (simp add: handle_task_updated_def)
  have c: "has_changes (analyze_task_changes (t_item manual_update) manual_item)"
    by (simp add: manual_update_def analyze_manual)
  have p: "t_priority manual_item \<noteq> t_priority (t_item manual_update)"
    by (simp add: manual_update_def manual_item_def example_item_def)
  have o: "t_old_item manual_update = Some manual_item"
    by (simp add: manual_update_def)
  from o c p h show ?thesis by blast
qed

lemma analyze_description:
  "analyze_task_changes (example_item\<lparr> t_description := Some ''x'' \<rparr>) example_item =
     \<lparr> has_changes = True, fields_changed = [''description''],
       change_details = [(''description'', VStr [], VStr ''x'', ''Description'')],
       change_summary = [''Description added''],
       significant_changes = [''description_changed''] \<rparr>"
  by (simp add: analyze_task_changes_def important_fields_def analyze_field_def get_field_def
        opt_value_def example_item_def no_changes_def describe_change_def
        add_note_def Let_def)

lemma analyze_priority:
  "analyze_task_changes (example_item\<lparr> t_priority := Some 4 \<rparr>) example_item =
     \<lparr> has_changes = True, fields_changed = [''priority''],
       change_details = [(''priority'', VInt 1, VInt 4, ''Priority'')],
       change_summary = [''Priority changed: Low '' @ arrow @ '' Urgent''],
       significant_changes = [''priority_changed''] \<rparr>"
  by (simp add: analyze_task_changes_def important_fields_def analyze_field_def get_field_def
        opt_value_def example_item_def no_changes_def describe_change_def
        add_note_def priority_name_def Let_def)

lemma example_not_manual: "\<not> has_manual_scheduled_label (example_item\<lparr> t_description := d, t_priority := p \<rparr>)"
  by (simp add: example_item_def has_manual_scheduled_label_def manual_scheduled_variants_def)

lemma example_now: "env_now_local example_env \<le> dt_max"
  by (simp add: example_env_def dt_max_def)

text \<open>
  Instances of the amended C2: an update that only adds a description to a task
  without due date needs no rescheduling; an update that raises the priority enters the
  rescheduling branch.
\<close>

theorem update_reschedule_decision_witness:
  "handle_task_updated example_env AgentLock_init
       (example_update (example_item\<lparr> t_description := Some ''x'' \<rparr>)) =
     \<lparr> hr_lock = AgentLock_init, hr_result = NoReschedulingNeeded ''Description added'' False,
       hr_log = [(''ignored'', ''no_rescheduling_needed'')], hr_agent_calls = [] \<rparr>
   \<and> (\<exists>reason. handle_task_updated example_env AgentLock_init
                  (example_update (example_item\<lparr> t_priority := Some 4 \<rparr>)) =
                reschedule example_env AgentLock_init
                  (example_update (example_item\<lparr> t_priority := Some 4 \<rparr>))
                  (''Priority changed: Low '' @ arrow @ '' Urgent'') reason)"
proof
  let ?td = "example_update (example_item\<lparr> t_description := Some ''x'' \<rparr>)"
  have a: "\<not> has_manual_scheduled_label (t_item ?td)"
    using example_not_manual [where d = "Some ''x''" and p = "Some 1"]
    by (simp add: example_update_def example_item_def)
  have b: "t_old_item ?td = Some example_item" by (simp add: example_update_def)
  have c: "has_changes (analyze_task_changes (t_item ?td) example_item)"
    by (simp add: example_update_def analyze_description)
  have n: "\<not> (t_priority example_item \<noteq> t_priority (t_item ?td) \<or> overdue_spec example_env (t_item ?td))"
    by (simp add: example_update_def example_item_def overdue_spec_def due_moment_def)
  from update_reschedule_decision [OF a b c example_now, of AgentLock_init, THEN conjunct2, THEN conjunct1] n
  have "handle_task_updated example_env AgentLock_init ?td =
              \<lparr> hr_lock = AgentLock_init,
                hr_result = NoReschedulingNeeded
                  (join ''; '' (change_summary (analyze_task_changes (t_item ?td) example_item))) False,
                hr_log = [(''ignored'', ''no_rescheduling_needed'')], hr_agent_calls = [] \<rparr>"
    by blast
  then show "handle_task_updated example_env AgentLock_init ?td =
     \<lparr> hr_lock = AgentLock_init, hr_result = NoReschedulingNeeded ''Description added'' False,
       hr_log = [(''ignored'', ''no_rescheduling_needed'')], hr_agent_calls = [] \<rparr>"
    by (simp add: example_update_def analyze_description)
next
  let ?td = "example_update (example_item\<lparr> t_priority := Some 4 \<rparr>)"
  have a: "\<not> has_manual_scheduled_label (t_item ?td)"
    using example_not_manual [where d = "Some []" and p = "Some 4"]
    by (simp add: example_update_def example_item_def)
  have b: "t_old_item ?td = Some example_item" by (simp add: example_update_def)
  have c: "has_changes (analyze_task_changes (t_item ?td) example_item)"
    by (simp add: example_update_def analyze_priority)
  have y: "t_priority example_item \<noteq> t_priority (t_item ?td) \<or> overdue_spec example_env (t_item ?td)"
    by (simp add: example_update_def example_item_def)
  from update_reschedule_decision [OF a b c example_now, of AgentLock_init, THEN conjunct1] y
  have "\<exists>reason. handle_task_updated example_env AgentLock_init ?td =
               reschedule example_env AgentLock_init ?td
                 (join ''; '' (change_summary (analyze_task_changes (t_item ?td) example_item))) reason"
    by blast
  then show "\<exists>reason. handle_task_updated example_env AgentLock_init ?td =
                reschedule example_env AgentLock_init ?td
                  (''Priority changed: Low '' @ arrow @ '' Urgent'') reason"
    by (simp add: example_update_def analyze_priority)
qed

lemma analyze_priority_2:
  "analyze_task_changes (example_item\<lparr> t_priority := Some 2 \<rparr>) example_item =
     \<lparr> has_changes = True, fields_changed = [''priority''],
       change_details = [(''priority'', VInt 1, VInt 2, ''Priority'')],
       change_summary = [''Priority changed: Low '' @ arrow @ '' Normal''],
       significant_changes = [''priority_changed''] \<rparr>"
  by (simp add: analyze_task_changes_def important_fields_def analyze_field_def get_field_def
        opt_value_def example_item_def no_changes_def describe_change_def
        add_note_def priority_name_def Let_def)

lemma example_gate_2:
  "should_auto_schedule_by_priority example_env (example_item\<lparr> t_priority := Some 2 \<rparr>) ''work'' =
     (False, ''Priority 2 (Normal (P3)) below auto-scheduling threshold (requires High (P2) or higher for work list)'')"
  by (simp add: should_auto_schedule_by_priority_def example_env_def example_settings_def
        should_auto_schedule_task_def effective_priority_def example_item_def api_priority_name_def
        str_of_int_def Let_def)

lemma example_body_2:
  "reschedule_body example_env (example_update (example_item\<lparr> t_priority := Some 2 \<rparr>)) summary reason =
     (ReschedulingSkipped
        ''Priority 2 (Normal (P3)) below auto-scheduling threshold (requires High (P2) or higher for work list)''
        summary,
      [(''skipped'', ''priority_below_threshold'')], [])"
proof -
  have p: "t_project_id (example_item\<lparr> t_priority := Some 2 \<rparr>) = Some ''p1''"
    by (simp add: example_item_def)
  have l: "get_todos_list_from_project_id example_env ''p1'' = Inr (Some ''work'')"
    by (simp add: get_todos_list_from_project_id_def example_env_def example_settings_def)
  show ?thesis
    by (simp add: reschedule_body_def example_update_def p l example_gate_2)
qed

text \<open>
  Claim C6 on the code. An update raises the priority of a task from 1 to 2 in a list
  that asks for priority 3, with the lock idle. The handler of updates acquires the
  lock at 1000, is stopped by the priority gate inside \<^verbatim>\<open>async with\<close>, and releases
  the lock at 1010: the lock is left in cooldown, not as it was. For the same task as a
  new task, \<^verbatim>\<open>handle_task_added\<close> applies the gate first and leaves the lock alone.
\<close>

theorem update_below_threshold_takes_lock:
  "handle_task_updated example_env AgentLock_init
       (example_update (example_item\<lparr> t_priority := Some 2 \<rparr>)) =
     \<lparr> hr_lock = release_agent_lock (acquired_state AgentLock_init ''t1'' 1000) ''t1'' 1010,
       hr_result = ReschedulingSkipped
         ''Priority 2 (Normal (P3)) below auto-scheduling threshold (requires High (P2) or higher for work list)''
         (''Priority changed: Low '' @ arrow @ '' Normal''),
       hr_log = [(''skipped'', ''priority_below_threshold'')], hr_agent_calls = [] \<rparr>
   \<and> is_cooling (release_agent_lock (acquired_state AgentLock_init ''t1'' 1000) ''t1'' 1010)
   \<and> release_agent_lock (acquired_state AgentLock_init ''t1'' 1000) ''t1'' 1010 \<noteq> AgentLock_init
   \<and> handle_task_added example_env AgentLock_init
       (example_update (example_item\<lparr> t_priority := Some 2 \<rparr>)) =
     \<lparr> hr_lock = AgentLock_init,
       hr_result = Inr (AddedSkipped
         ''Priority 2 (Normal (P3)) below auto-scheduling threshold (requires High (P2) or higher for work list)''),
       hr_log = [(''skipped'', ''priority_below_threshold'')], hr_agent_calls = [] \<rparr>"
proof (intro conjI)
  let ?td = "example_update (example_item\<lparr> t_priority := Some 2 \<rparr>)"
  have m: "\<not> has_manual_scheduled_label (t_item ?td)"
    using example_not_manual [where d = "Some []" and p = "Some 2"]
    by (simp add: example_update_def example_item_def)
  have sr: "should_reschedule example_env (t_item ?td) example_item True =
              (True, Some (PriorityChangedReason ''Low'' ''Normal''))"
    by (simp add: should_reschedule_def example_update_def example_item_def effective_priority_def
          name_of_priority_def)
  have en: "aenter AgentLock_init ''t1'' 1000 = (acquired_state AgentLock_init ''t1'' 1000, Inr ())"
    by (simp add: aenter_def acquire_not_blocked acquire_blocked_def AgentLock_init_def)
  have r: "reschedule example_env AgentLock_init ?td summary reason =
     \<lparr> hr_lock = release_agent_lock (acquired_state AgentLock_init ''t1'' 1000) ''t1'' 1010,
       hr_result = ReschedulingSkipped
         ''Priority 2 (Normal (P3)) below auto-scheduling threshold (requires High (P2) or higher for work list)''
         summary,
       hr_log = [(''skipped'', ''priority_below_threshold'')], hr_agent_calls = [] \<rparr>" for summary reason
  proof -
    have "t_id ?td = Some ''t1''" "env_time_enter example_env = 1000" "env_time_exit example_env = 1010"
      by (simp_all add: example_update_def example_env_def)
    then show ?thesis
      by (simp add: reschedule_def en example_body_2 aexit_def Let_def)
  qed
  show "handle_task_updated example_env AgentLock_init ?td =
     \<lparr> hr_lock = release_agent_lock (acquired_state AgentLock_init ''t1'' 1000) ''t1'' 1010,
       hr_result = ReschedulingSkipped
         ''Priority 2 (Normal (P3)) below auto-scheduling threshold (requires High (P2) or higher for work list)''
         (''Priority changed: Low '' @ arrow @ '' Normal''),
       hr_log = [(''skipped'', ''priority_below_threshold'')], hr_agent_calls = [] \<rparr>"
    using m sr
    by (simp add: handle_task_updated_def Let_def r)
       (simp add: example_update_def analyze_priority_2 sr [unfolded example_update_def, simplified] r [unfolded example_update_def])
  show "is_cooling (release_agent_lock (acquired_state AgentLock_init ''t1'' 1000) ''t1'' 1010)"
    by (simp add: is_cooling_def release_agent_lock_def acquired_state_def)
  show "release_agent_lock (acquired_state AgentLock_init ''t1'' 1000) ''t1'' 1010 \<noteq> AgentLock_init"
    by (simp add: release_agent_lock_def acquired_state_def AgentLock_init_def)
  have p: "t_project_id (t_item ?td) = Some ''p1''"
    by (simp add: example_update_def example_item_def)
  have l: "get_todos_list_from_project_id example_env ''p1'' = Inr (Some ''work'')"
    by (simp add: get_todos_list_from_project_id_def example_env_def example_settings_def)
  have c: "env_autocategorize example_env ?td = Inr None"
    by (simp add: example_env_def)
  have gate: "should_auto_schedule_by_priority example_env (t_item ?td) ''work'' =
     (False, ''Priority 2 (Normal (P3)) below auto-scheduling threshold (requires High (P2) or higher for work list)'')"
    using example_gate_2 by (simp add: example_update_def)
  have "schedule_new_task example_env AgentLock_init ?td =
     \<lparr> hr_lock = AgentLock_init,
       hr_result = Inr (AddedSkipped
         ''Priority 2 (Normal (P3)) below auto-scheduling threshold (requires High (P2) or higher for work list)''),
       hr_log = [(''skipped'', ''priority_below_threshold'')], hr_agent_calls = [] \<rparr>"
    using m by (simp add: schedule_new_task_def Let_def p l gate)
  then show "handle_task_added example_env AgentLock_init ?td =
     \<lparr> hr_lock = AgentLock_init,
       hr_result = Inr (AddedSkipped
         ''Priority 2 (Normal (P3)) below auto-scheduling threshold (requires High (P2) or higher for work list)''),
       hr_log = [(''skipped'', ''priority_below_threshold'')], hr_agent_calls = [] \<rparr>"
    by (simp add: handle_task_added_def p c truthy_str_def)
qed

lemma gate_raises:
  "env_should_auto_schedule_task ev (t_priority task) todos_list = Inl e \<Longrightarrow>
   should_auto_schedule_by_priority ev task todos_list = priority_check_failed (t_priority task) e"
  by (simp add: should_auto_schedule_by_priority_def Let_def)

lemma settings_raise:
  "env_should_auto_schedule_task ev (t_priority task) todos_list = Inr False \<Longrightarrow>
   env_load_settings ev = Inl e \<Longrightarrow>
   should_auto_schedule_by_priority ev task todos_list = priority_check_failed (t_priority task) e"
  by (simp add: should_auto_schedule_by_priority_def Let_def)

lemma aenter_free:
  "\<not> acquire_blocked g now \<Longrightarrow> aenter g task_id now = (acquired_state g task_id now, Inr ())"
  by (simp add: aenter_def acquire_not_blocked)

lemma update_body_calls_agent:
  assumes "env_should_auto_schedule_task ev (t_priority (t_item td)) todos_list = Inl e"
    "t_project_id (t_item td) = Some project_id" "project_id \<noteq> []"
    "get_todos_list_from_project_id ev project_id = Inr (Some todos_list)" "todos_list \<noteq> []"
  shows "snd (snd (reschedule_body ev td summary reason)) = [Some todos_list]"
  using assms(2-5) gate_raises [OF assms(1)]
  by (simp add: reschedule_body_def priority_check_failed_def split: sum.splits)

lemma added_calls_agent:
  assumes "env_should_auto_schedule_task ev (t_priority (t_item td)) todos_list = Inl e"
    "t_project_id (t_item td) = Some project_id" "project_id \<noteq> []"
    "get_todos_list_from_project_id ev project_id = Inr (Some todos_list)" "todos_list \<noteq> []"
    "\<not> has_manual_scheduled_label (t_item td)" "env_autocategorize ev td = Inr None"
    "\<not> acquire_blocked g (env_time_enter ev)"
  shows "hr_agent_calls (handle_task_added ev g td) = [None]"
proof -
  have "hr_agent_calls (schedule_new_task ev g td) = [None]"
    using assms(2-6) gate_raises [OF assms(1)] aenter_free [OF assms(8)]
    by (simp add: schedule_new_task_def priority_check_failed_def Let_def split: sum.splits)
  with assms(2,3,7) show ?thesis
    by (simp add: handle_task_added_def truthy_str_def)
qed

text \<open>
  Claim C10. When the check of the threshold raises, or when it answers "no" and
  loading the settings for the message raises, \<^verbatim>\<open>should_auto_schedule_by_priority\<close>
  returns True with a reason that names the failure. With a project that maps to a
  list, the agent is then called: in the body of the handler of updates, and by the
  handler of new tasks when the task carries no manual label, is not categorized and
  the lock is free.
\<close>

theorem priority_check_error_defaults_to_allow:
  "(env_should_auto_schedule_task ev (t_priority task) todos_list = Inl e \<longrightarrow>
      should_auto_schedule_by_priority ev task todos_list =
        (True, ''Priority check failed for priority '' @ str_of_int (effective_priority (t_priority task))
               @ '', defaulting to auto-schedule (error: '' @ exc_str e @ '')''))
   \<and> (env_should_auto_schedule_task ev (t_priority task) todos_list = Inr False
       \<and> env_load_settings ev = Inl e \<longrightarrow>
      should_auto_schedule_by_priority ev task todos_list =
        (True, ''Priority check failed for priority '' @ str_of_int (effective_priority (t_priority task))
               @ '', defaulting to auto-schedule (error: '' @ exc_str e @ '')''))
   \<and> (env_should_auto_schedule_task ev (t_priority (t_item td)) todos_list = Inl e
       \<and> t_project_id (t_item td) = Some project_id \<and> project_id \<noteq> []
       \<and> get_todos_list_from_project_id ev project_id = Inr (Some todos_list) \<and> todos_list \<noteq> [] \<longrightarrow>
      snd (snd (reschedule_body ev td summary reason)) = [Some todos_list]
      \<and> (\<not> has_manual_scheduled_label (t_item td) \<and> env_autocategorize ev td = Inr None
           \<and> \<not> acquire_blocked g (env_time_enter ev) \<longrightarrow>
          hr_agent_calls (handle_task_added ev g td) = [None]))"
proof (intro conjI impI)
  assume "env_should_auto_schedule_task ev (t_priority task) todos_list = Inl e"
  then show "should_auto_schedule_by_priority ev task todos_list =
        (True, ''Priority check failed for priority '' @ str_of_int (effective_priority (t_priority task))
               @ '', defaulting to auto-schedule (error: '' @ exc_str e @ '')'')"
    by (simp add: gate_raises priority_check_failed_def)
next
  assume "env_should_auto_schedule_task ev (t_priority task) todos_list = Inr False
       \<and> env_load_settings ev = Inl e"
  then show "should_auto_schedule_by_priority ev task todos_list =
        (True, ''Priority check failed for priority '' @ str_of_int (effective_priority (t_priority task))
               @ '', defaulting to auto-schedule (error: '' @ exc_str e @ '')'')"
    by (simp add: settings_raise priority_check_failed_def)
next
  assume a: "env_should_auto_schedule_task ev (t_priority (t_item td)) todos_list = Inl e
       \<and> t_project_id (t_item td) = Some project_id \<and> project_id \<noteq> []
       \<and> get_todos_list_from_project_id ev project_id = Inr (Some todos_list) \<and> todos_list \<noteq> []"
  then show "snd (snd (reschedule_body ev td summary reason)) = [Some todos_list]"
    by (intro update_body_calls_agent [where e = e and project_id = project_id]) simp_all
  assume "\<not> has_manual_scheduled_label (t_item td) \<and> env_autocategorize ev td = Inr None
           \<and> \<not> acquire_blocked g (env_time_enter ev)"
  with a show "hr_agent_calls (handle_task_added ev g td) = [None]"
    by (intro added_calls_agent [where e = e and project_id = project_id and todos_list = todos_list])
       simp_all
qed

text \<open>
  An instance of C10 with a threshold check that raises "settings unavailable".
\<close>

theorem priority_check_error_defaults_to_allow_witness:
  "should_auto_schedule_by_priority failing_gate_env example_item ''work'' =
     (True, ''Priority check failed for priority 1, defaulting to auto-schedule (error: settings unavailable)'')
   \<and> snd (snd (reschedule_body failing_gate_env (example_update example_item)
          ''Description added'' (OverdueReason 378000000000 0 388800000000)))
       = [Some ''work'']
   \<and> hr_agent_calls (handle_task_added failing_gate_env AgentLock_init (example_update example_item))
       = [None]"
proof (intro conjI)
  have g: "env_should_auto_schedule_task failing_gate_env (t_priority example_item) ''work''
             = Inl (PyException ''settings unavailable'')"
    by (simp add: failing_gate_env_def)
  from priority_check_error_defaults_to_allow [of failing_gate_env example_item "''work''"
         "PyException ''settings unavailable''", THEN conjunct1] g
  show "should_auto_schedule_by_priority failing_gate_env example_item ''work'' =
     (True, ''Priority check failed for priority 1, defaulting to auto-schedule (error: settings unavailable)'')"
    by (simp add: exc_str_def effective_priority_def example_item_def str_of_int_def)
  have h: "env_should_auto_schedule_task failing_gate_env (t_priority (t_item (example_update example_item))) ''work''
             = Inl (PyException ''settings unavailable'')
       \<and> t_project_id (t_item (example_update example_item)) = Some ''p1'' \<and> ''p1'' \<noteq> []
       \<and> get_todos_list_from_project_id failing_gate_env ''p1'' = Inr (Some ''work'') \<and> ''work'' \<noteq> []"
    by (simp add: failing_gate_env_def example_update_def example_item_def
          get_todos_list_from_project_id_def example_env_def example_settings_def)
  note inst = priority_check_error_defaults_to_allow [where ev = failing_gate_env
         and td = "example_update example_item" and todos_list = "''work''" and project_id = "''p1''"
         and e = "PyException ''settings unavailable''" and summary = "''Description added''" and reason = "OverdueReason 378000000000 0 388800000000"
         and g = AgentLock_init, THEN conjunct2, THEN conjunct2, THEN mp, OF h]
  from inst show "snd (snd (reschedule_body failing_gate_env (example_update example_item)
          ''Description added'' (OverdueReason 378000000000 0 388800000000)))
       = [Some ''work'']"
    by blast
  have k: "\<not> has_manual_scheduled_label (t_item (example_update example_item))
           \<and> env_autocategorize failing_gate_env (example_update example_item) = Inr None
           \<and> \<not> acquire_blocked AgentLock_init (env_time_enter failing_gate_env)"
    by (simp add: example_update_def example_item_def has_manual_scheduled_label_def
          manual_scheduled_variants_def failing_gate_env_def example_env_def acquire_blocked_def
          AgentLock_init_def)
  from inst k show "hr_agent_calls (handle_task_added failing_gate_env AgentLock_init (example_update example_item))
       = [None]"
    by blast
qed

text \<open>
  The router on its own: a missing or empty event name gives the first dictionary; what
  \<^verbatim>\<open>log_trigger_received\<close> raises leaves the router; what the handler of completed
  tasks raises is turned into the error dictionary, and its message into the success
  dictionary, when the logging calls return.
\<close>

lemma router_missing_event_name:
  "t_event_name td = None \<or> t_event_name td = Some [] \<Longrightarrow>
   router ev lg hs g td = (g, Inr MissingEventNameResult)"
  by (auto simp: router_def)

lemma router_trigger_log_raises:
  "t_event_name td = Some event_name \<Longrightarrow> event_name \<noteq> [] \<Longrightarrow>
   log_trigger_received lg (trigger_type_of event_name) td = Some e \<Longrightarrow>
   router ev lg hs g td = (g, Inl e)"
  by (simp add: router_def)

lemma router_completed_raises:
  assumes "t_event_name td = Some ''item:completed''"
    "log_trigger_received lg ''task_completed'' td = None"
    "handle_task_completed hs g td = (g', Inl e)"
    "log_task_action lg ''failed'' td (''Processing failed: '' @ exc_str e) = None"
  shows "router ev lg hs g td = (g', Inr (ErrorResult ''item:completed'' (t_id td) (exc_str e)))"
  using assms by (simp add: router_def dispatch_def as_text_def trigger_type_of_def)

lemma router_completed_returns:
  assumes "t_event_name td = Some ''item:completed''"
    "log_trigger_received lg ''task_completed'' td = None"
    "handle_task_completed hs g td = (g', Inr message)"
  shows "router ev lg hs g td =
           (g', Inr (SuccessResult ''item:completed'' (t_id td) (t_content (t_item td))
                       (Some (Text message))))"
  using assms by (simp add: router_def dispatch_def as_text_def trigger_type_of_def)

text \<open>The update of a task without project, step by step.\<close>

lemma analyze_without_project:
  "analyze_task_changes (example_item\<lparr> t_priority := Some 4, t_project_id := None \<rparr>)
       (example_item\<lparr> t_project_id := None \<rparr>) =
     \<lparr> has_changes = True, fields_changed = [''priority''],
       change_details = [(''priority'', VInt 1, VInt 4, ''Priority'')],
       change_summary = [''Priority changed: Low '' @ arrow @ '' Urgent''],
       significant_changes = [''priority_changed''] \<rparr>"
  by (simp add: analyze_task_changes_def important_fields_def analyze_field_def get_field_def
        opt_value_def example_item_def no_changes_def describe_change_def
        add_note_def priority_name_def Let_def)

lemma updated_without_project:
  "handle_task_updated example_env AgentLock_init update_without_project =
     \<lparr> hr_lock = release_agent_lock (acquired_state AgentLock_init ''t1'' 1000) ''t1'' 1010,
       hr_result = ReturnedNone, hr_log = [], hr_agent_calls = [] \<rparr>"
proof -
  let ?td = update_without_project
  have item: "t_item ?td = example_item\<lparr> t_priority := Some 4, t_project_id := None \<rparr>"
    and old: "t_old_item ?td = Some (example_item\<lparr> t_project_id := None \<rparr>)"
    and tid: "t_id ?td = Some ''t1''"
    by (simp_all add: update_without_project_def)
  have m: "\<not> has_manual_scheduled_label (t_item ?td)"
    by (simp add: item example_item_def has_manual_scheduled_label_def manual_scheduled_variants_def)
  have sr: "should_reschedule example_env (t_item ?td) (example_item\<lparr> t_project_id := None \<rparr>) True =
              (True, Some (PriorityChangedReason ''Low'' ''Urgent''))"
    by (simp add: should_reschedule_def item example_item_def effective_priority_def
          name_of_priority_def)
  have en: "aenter AgentLock_init ''t1'' 1000 = (acquired_state AgentLock_init ''t1'' 1000, Inr ())"
    by (simp add: aenter_def acquire_agent_lock_def acquired_state_def AgentLock_init_def)
  have body: "reschedule_body example_env ?td summary reason = (ReturnedNone, [], [])" for summary reason
    by (simp add: reschedule_body_def item)
  have times: "env_time_enter example_env = 1000" "env_time_exit example_env = 1010"
    by (simp_all add: example_env_def)
  have r: "reschedule example_env AgentLock_init ?td summary reason =
     \<lparr> hr_lock = release_agent_lock (acquired_state AgentLock_init ''t1'' 1000) ''t1'' 1010,
       hr_result = ReturnedNone, hr_log = [], hr_agent_calls = [] \<rparr>" for summary reason
    by (simp add: reschedule_def tid times en body aexit_def Let_def)
  have ca: "analyze_task_changes (t_item ?td) (example_item\<lparr> t_project_id := None \<rparr>) =
     \<lparr> has_changes = True, fields_changed = [''priority''],
       change_details = [(''priority'', VInt 1, VInt 4, ''Priority'')],
       change_summary = [''Priority changed: Low '' @ arrow @ '' Urgent''],
       significant_changes = [''priority_changed''] \<rparr>"
    unfolding item by (rule analyze_without_project)
  show ?thesis
    using m by (simp add: handle_task_updated_def old ca Let_def sr r)
qed

lemma added_without_project:
  "handle_task_added example_env AgentLock_init update_without_project =
     \<lparr> hr_lock = AgentLock_init, hr_result = Inr NoProjectId,
       hr_log = [(''skipped'', ''no_project_id'')], hr_agent_calls = [] \<rparr>"
proof -
  have item: "t_item update_without_project = example_item\<lparr> t_priority := Some 4, t_project_id := None \<rparr>"
    by (simp add: update_without_project_def)
  have m: "\<not> has_manual_scheduled_label (t_item update_without_project)"
    by (simp add: item example_item_def has_manual_scheduled_label_def manual_scheduled_variants_def)
  have p: "t_project_id (t_item update_without_project) = None"
    by (simp add: item)
  show ?thesis
    using m by (simp add: handle_task_added_def schedule_new_task_def truthy_str_def p Let_def)
qed

text \<open>
  Claim C7 on the code. An update raises the priority of a task that has no project,
  with the lock idle and with logging calls that return. The handler of updates enters
  the rescheduling branch, finds no project, prints a warning and falls off its end: it
  returns \<^verbatim>\<open>None\<close>, logs nothing, and leaves the lock in cooldown. The router reports
  success with \<^verbatim>\<open>None\<close> as result, so the dictionary holds no message of the handler.
  For the same task as a new task, \<^verbatim>\<open>handle_task_added\<close> returns and logs the message
  that the task has no project.
\<close>

theorem router_update_without_project:
  "router example_env quiet_logger example_handlers AgentLock_init update_without_project =
     (release_agent_lock (acquired_state AgentLock_init ''t1'' 1000) ''t1'' 1010,
      Inr (SuccessResult ''item:updated'' (Some ''t1'') (Some ''Write report'') None))
   \<and> handle_task_updated example_env AgentLock_init update_without_project =
     \<lparr> hr_lock = release_agent_lock (acquired_state AgentLock_init ''t1'' 1000) ''t1'' 1010,
       hr_result = ReturnedNone, hr_log = [], hr_agent_calls = [] \<rparr>
   \<and> handle_task_added example_env AgentLock_init update_without_project =
     \<lparr> hr_lock = AgentLock_init, hr_result = Inr NoProjectId,
       hr_log = [(''skipped'', ''no_project_id'')], hr_agent_calls = [] \<rparr>"
proof (intro conjI)
  have f: "t_event_name update_without_project = Some ''item:updated''"
    "t_id update_without_project = Some ''t1''"
    "t_content (t_item update_without_project) = Some ''Write report''"
    by (simp_all add: update_without_project_def example_item_def)
  have d: "dispatch example_env quiet_logger example_handlers AgentLock_init update_without_project
             ''item:updated'' =
           (release_agent_lock (acquired_state AgentLock_init ''t1'' 1000) ''t1'' 1010, Inr None)"
    by (simp add: dispatch_def updated_without_project update_return_def)
  have l: "log_trigger_received quiet_logger t update_without_project = None" for t
    by (simp add: quiet_logger_def)
  show "router example_env quiet_logger example_handlers AgentLock_init update_without_project =
     (release_agent_lock (acquired_state AgentLock_init ''t1'' 1000) ''t1'' 1010,
      Inr (SuccessResult ''item:updated'' (Some ''t1'') (Some ''Write report'') None))"
    by (simp add: router_def f l d)
qed (rule updated_without_project, rule added_without_project)

end
